theory Spec2Isabelle
  imports Complex_Main
begin

section \<open>Stream process supervisor (services/streamingService.js)\<close>

text \<open>
  The supervisor keeps its state in module-level JavaScript maps keyed by the stream
  id, and talks to a stream store, a video store, the file system, the operating
  system's process table, the timer queue and a termination scheduler.  All of
  them are fields of one record \<open>world\<close>, passed through every operation.

  Conventions of the embedding:
  \<^item> a \<open>Date\<close> is its number of milliseconds since the epoch (\<open>int\<close>); every handler
    takes the instant \<open>now\<close> at which it runs and runs to completion at that instant
    (the suspension points inside one handler are not modelled);
  \<^item> positions are whole seconds (\<open>int\<close>); an absent or \<open>null\<close> argument is \<open>None\<close>;
  \<^item> \<open>x || 0\<close> on a looked-up number is \<open>num_or_zero\<close> or \<open>count_or_zero\<close>,
    JavaScript truthiness of a number-or-null is \<open>truthy\<close>;
  \<^item> the errors the service returns or throws itself are values of \<open>error\<close>; calls to the
    stream store, \<open>spawn\<close> and \<open>kill\<close> succeed (their exceptions are not modelled);
  \<^item> \<open>saveStreamHistory\<close> only inserts into a history table that no operation of the
    supervisor reads back, and the health monitor's own \<open>healthChecks\<close> map is private
    to the monitor; neither is part of \<open>world\<close>;
  \<^item> a log line is its text; the numbers in it are printed by \<open>show_int\<close>.
\<close>

subsection \<open>Data\<close>

type_synonym stream_id = string
type_synonym pid = nat

record log_entry =
  timestamp :: int
  message :: string

text \<open>
  Modelled from the spec: the rows of the stream configuration store and of the video
  record store (models/Stream and models/Video are not part of the sources), with the
  fields the supervisor reads.  \<open>Stream.findById\<close> and \<open>Video.findById\<close> are the lookups
  in the maps \<open>streams\<close> and \<open>videos\<close> of the state below.
\<close>

record stream_row =
  status :: string
  video_id :: string
  user_id :: string
  duration :: "int option"
  use_advanced_settings :: bool

record video_row =
  filepath :: string

datatype error =
    StreamNotFound
  | VideoRecordNotFound string
  | VideoFileNotFound
  | StreamNotActive
  | StreamAlreadyActive

fun error_message :: "error \<Rightarrow> string" where
  "error_message StreamNotFound = ''Stream not found''"
| "error_message (VideoRecordNotFound vid) =
     ''Video record not found in database for video_id: '' @ vid"
| "error_message VideoFileNotFound =
     ''Video file not found on disk. Please check paths and file existence.''"
| "error_message StreamNotActive = ''Stream is not active''"
| "error_message StreamAlreadyActive = ''Stream is already active''"

record start_info =
  isAdvancedMode :: bool
  resumed :: bool

text \<open>
  A pending \<open>setTimeout\<close> callback is its closure: the stream id, the resume position
  computed when it was scheduled and, for the error path, the retry count read then.
\<close>

datatype timer_action =
    CrashRestart stream_id int
  | ErrorRestart stream_id int nat
  | HealthRecovery stream_id int

datatype sched_call =
    ScheduleTermination stream_id int
  | StreamStopped stream_id

record world =
  activeStreams :: "stream_id \<rightharpoonup> pid"
  streamLogs :: "stream_id \<rightharpoonup> log_entry list"
  streamRetryCount :: "stream_id \<rightharpoonup> nat"
  streamStartTimes :: "stream_id \<rightharpoonup> int"
  streamVideoPositions :: "stream_id \<rightharpoonup> int"
  streamBasePositions :: "stream_id \<rightharpoonup> int"
  manuallyStoppingStreams :: "stream_id set"
  streams :: "stream_id \<rightharpoonup> stream_row"
  videos :: "string \<rightharpoonup> video_row"
  public_files :: "string set"
  invocation :: "string \<Rightarrow> stream_row \<Rightarrow> int \<Rightarrow> string list"
  processes :: "pid \<rightharpoonup> stream_id"
  next_pid :: pid
  signals :: "(pid \<times> string) list"
  timers :: "(rat \<times> timer_action) list"
  scheduler :: "sched_call list"

text \<open>
  \<open>processes\<close> holds the children that were spawned and have not exited, each with the
  stream id its exit handler closed over; \<open>signals\<close> records every signal sent;
  \<open>public_files\<close> is the set of paths below \<open>public/\<close> that exist on disk;
  \<open>invocation\<close> is the external argument builder (\<open>ffmpegConfig.buildFFmpegArgs\<close>
  applied to the resolved path, the stream's settings and the resume position), whose
  output only reaches the log.
\<close>

definition MAX_RETRY_ATTEMPTS :: nat where
  "MAX_RETRY_ATTEMPTS = 3"

definition MAX_LOG_LINES :: nat where
  "MAX_LOG_LINES = 100"

text \<open>
  \<open>ffmpegConfig.ffmpegPath\<close> is the system encoder when \<open>/usr/bin/ffmpeg\<close> exists, which
  is the case taken here; the path only appears in a log line.
\<close>

definition ffmpegPath :: string where
  "ffmpegPath = ''/usr/bin/ffmpeg''"

subsection \<open>JavaScript values\<close>

definition truthy :: "int option \<Rightarrow> bool" where
  "truthy r = (case r of None \<Rightarrow> False | Some x \<Rightarrow> x \<noteq> 0)"

definition num_or_zero :: "int option \<Rightarrow> int" where
  "num_or_zero r = (case r of None \<Rightarrow> 0 | Some x \<Rightarrow> x)"

definition count_or_zero :: "nat option \<Rightarrow> nat" where
  "count_or_zero r = (case r of None \<Rightarrow> 0 | Some x \<Rightarrow> x)"

fun digits_of :: "nat \<Rightarrow> string" where
  "digits_of n =
     (if n < 10 then [''0123456789'' ! n]
      else digits_of (n div 10) @ [''0123456789'' ! (n mod 10)])"

declare digits_of.simps [simp del]

definition show_int :: "int \<Rightarrow> string" where
  "show_int i = (if i < 0 then CHR ''-'' # digits_of (nat (- i)) else digits_of (nat i))"

definition show_code :: "int option \<Rightarrow> string" where
  "show_code c = (case c of None \<Rightarrow> ''null'' | Some i \<Rightarrow> show_int i)"

definition show_signal :: "string option \<Rightarrow> string" where
  "show_signal s = (case s of None \<Rightarrow> ''null'' | Some n \<Rightarrow> n)"

fun join_args :: "string list \<Rightarrow> string" where
  "join_args [] = []"
| "join_args [a] = a"
| "join_args (a # b # rest) = a @ '' '' @ join_args (b # rest)"

subsection \<open>The log buffer\<close>

text \<open>\<open>logs.push(entry); if (logs.length > MAX_LOG_LINES) logs.shift()\<close>\<close>

definition push_log :: "log_entry list \<Rightarrow> log_entry \<Rightarrow> log_entry list" where
  "push_log logs e =
     (let logs' = logs @ [e]
      in if length logs' > MAX_LOG_LINES then tl logs' else logs')"

definition getStreamLogs :: "stream_id \<Rightarrow> world \<Rightarrow> log_entry list" where
  "getStreamLogs sid w = (case streamLogs w sid of None \<Rightarrow> [] | Some l \<Rightarrow> l)"

definition addStreamLog :: "int \<Rightarrow> stream_id \<Rightarrow> string \<Rightarrow> world \<Rightarrow> world" where
  "addStreamLog now sid msg w =
     w\<lparr>streamLogs := (streamLogs w)
          (sid \<mapsto> push_log (getStreamLogs sid w) \<lparr>timestamp = now, message = msg\<rparr>)\<rparr>"

fun appendLogs :: "stream_id \<Rightarrow> (int \<times> string) list \<Rightarrow> world \<Rightarrow> world" where
  "appendLogs sid [] w = w"
| "appendLogs sid ((t, m) # rest) w = appendLogs sid rest (addStreamLog t sid m w)"

definition entry_of :: "int \<times> string \<Rightarrow> log_entry" where
  "entry_of p = \<lparr>timestamp = fst p, message = snd p\<rparr>"

subsection \<open>Collaborators\<close>

text \<open>
  Modelled from the spec: \<open>Stream.updateStatus(id, status, ownerId?)\<close> of the stream
  store, which rewrites the status of an existing row and returns nothing.
\<close>

definition updateStatus :: "stream_id \<Rightarrow> string \<Rightarrow> world \<Rightarrow> world" where
  "updateStatus sid st w =
     w\<lparr>streams := (streams w)
          (sid := map_option (\<lambda>row. row\<lparr>status := st\<rparr>) (streams w sid))\<rparr>"

text \<open>\<open>schedulerService.handleStreamStopped(streamId)\<close>, recorded as a call.\<close>

definition handleStreamStopped :: "stream_id \<Rightarrow> world \<Rightarrow> world" where
  "handleStreamStopped sid w = w\<lparr>scheduler := scheduler w @ [StreamStopped sid]\<rparr>"

definition scheduleStreamTermination :: "stream_id \<Rightarrow> int \<Rightarrow> world \<Rightarrow> world" where
  "scheduleStreamTermination sid d w =
     w\<lparr>scheduler := scheduler w @ [ScheduleTermination sid d]\<rparr>"

text \<open>\<open>spawn(ffmpegPath, ffmpegArgs, ...)\<close>: a new child, alive until its exit event.\<close>

definition spawn :: "stream_id \<Rightarrow> world \<Rightarrow> pid \<times> world" where
  "spawn sid w =
     (next_pid w,
      w\<lparr>processes := (processes w)(next_pid w \<mapsto> sid), next_pid := Suc (next_pid w)\<rparr>)"

definition kill :: "pid \<Rightarrow> string \<Rightarrow> world \<Rightarrow> world" where
  "kill p sig w = w\<lparr>signals := signals w @ [(p, sig)]\<rparr>"

definition setTimeout :: "timer_action \<Rightarrow> rat \<Rightarrow> world \<Rightarrow> world" where
  "setTimeout a d w = w\<lparr>timers := timers w @ [(d, a)]\<rparr>"

subsection \<open>Starting a stream\<close>

definition relativeVideoPath :: "string \<Rightarrow> string" where
  "relativeVideoPath fp =
     (case fp of [] \<Rightarrow> fp | c # rest \<Rightarrow> if c = CHR ''/'' then rest else fp)"

definition buildFFmpegArgs ::
  "int \<Rightarrow> stream_id \<Rightarrow> stream_row \<Rightarrow> int option \<Rightarrow> world \<Rightarrow> (error + string list) \<times> world"
where
  "buildFFmpegArgs now sid stream resumePosition w =
     (case videos w (video_id stream) of
        None \<Rightarrow> (Inl (VideoRecordNotFound (video_id stream)), w)
      | Some video \<Rightarrow>
          if relativeVideoPath (filepath video) \<notin> public_files w
          then (Inl VideoFileNotFound, w)
          else let ffmpegArgs = invocation w (relativeVideoPath (filepath video)) stream
                                  (num_or_zero resumePosition)
               in (Inr ffmpegArgs,
                   addStreamLog now sid (''Built FFmpeg args: '' @ join_args ffmpegArgs) w))"

text \<open>
  The position bookkeeping of \<open>startStream\<close>:
  \<open>if (resumePosition && resumePosition > 0) {...} else if (!streamVideoPositions.has(streamId)) {...}\<close>
\<close>

definition initPositions :: "int \<Rightarrow> stream_id \<Rightarrow> int option \<Rightarrow> world \<Rightarrow> world" where
  "initPositions now sid resumePosition w =
     (if truthy resumePosition \<and> num_or_zero resumePosition > 0
      then addStreamLog now sid
             (''Set base resume position to: '' @ show_int (num_or_zero resumePosition) @ ''s'')
             (w\<lparr>streamVideoPositions := (streamVideoPositions w)(sid \<mapsto> num_or_zero resumePosition),
                streamBasePositions := (streamBasePositions w)(sid \<mapsto> num_or_zero resumePosition)\<rparr>)
      else if streamVideoPositions w sid = None
      then addStreamLog now sid ''Initialized base resume position to: 0s''
             (w\<lparr>streamVideoPositions := (streamVideoPositions w)(sid \<mapsto> 0),
                streamBasePositions := (streamBasePositions w)(sid \<mapsto> 0)\<rparr>)
      else w)"

text \<open>What \<open>startStream\<close> does once the arguments are built: log, spawn, register.\<close>

definition launch ::
  "int \<Rightarrow> stream_id \<Rightarrow> stream_row \<Rightarrow> int option \<Rightarrow> string list \<Rightarrow> world \<Rightarrow> world"
where
  "launch now sid stream resumePosition ffmpegArgs w =
     (let w1 = addStreamLog now sid
                 (''Starting stream with command: '' @ ffmpegPath @ '' '' @ join_args ffmpegArgs) w;
          w2 = (if truthy resumePosition
                then addStreamLog now sid
                       (''Resuming from position: '' @ show_int (num_or_zero resumePosition) @ ''s'') w1
                else w1)
      in case spawn sid w2 of
           (ffmpegProcess, w3) \<Rightarrow>
             (let w4 = w3\<lparr>activeStreams := (activeStreams w3)(sid \<mapsto> ffmpegProcess)\<rparr>;
                  w5 = w4\<lparr>streamStartTimes := (streamStartTimes w4)(sid \<mapsto> now)\<rparr>;
                  w6 = initPositions now sid resumePosition w5;
                  w7 = updateStatus sid ''live'' w6
              in if truthy (duration stream)
                 then scheduleStreamTermination sid (num_or_zero (duration stream)) w7
                 else w7))"

definition startStream ::
  "int \<Rightarrow> stream_id \<Rightarrow> int option \<Rightarrow> world \<Rightarrow> (error + start_info) \<times> world"
where
  "startStream now sid resumePosition w =
     (let w1 = (if \<not> truthy resumePosition
                then w\<lparr>streamRetryCount := (streamRetryCount w)(sid := None)\<rparr>
                else w)
      in case streams w1 sid of
           None \<Rightarrow> (Inl StreamNotFound, w1)
         | Some stream \<Rightarrow>
             (case buildFFmpegArgs now sid stream resumePosition w1 of
                (Inl err, w2) \<Rightarrow>
                  (Inl err,
                   addStreamLog now sid (''Failed to start stream: '' @ error_message err) w2)
              | (Inr ffmpegArgs, w2) \<Rightarrow>
                  (Inr \<lparr>isAdvancedMode = use_advanced_settings stream,
                        resumed = truthy resumePosition\<rparr>,
                   launch now sid stream resumePosition ffmpegArgs w2)))"

text \<open>
  The second copy of the service in the sources: it checks the registry before it
  looks the stream up, sets the retry count to 0 instead of deleting it and keeps no
  base position.  It builds the encoder arguments itself; they only reach the log and
  are taken from \<open>invocation\<close> here as well.
\<close>

definition buildFFmpegArgs_guarded ::
  "int \<Rightarrow> stream_id \<Rightarrow> stream_row \<Rightarrow> int option \<Rightarrow> world \<Rightarrow> (error + string list) \<times> world"
where
  "buildFFmpegArgs_guarded now sid stream resumePosition w =
     (case videos w (video_id stream) of
        None \<Rightarrow> (Inl (VideoRecordNotFound (video_id stream)), w)
      | Some video \<Rightarrow>
          if relativeVideoPath (filepath video) \<notin> public_files w
          then (Inl VideoFileNotFound, w)
          else (Inr (invocation w (relativeVideoPath (filepath video)) stream
                       (num_or_zero resumePosition)),
                if truthy resumePosition \<and> num_or_zero resumePosition > 0
                then addStreamLog now sid
                       (''Resuming stream from position: ''
                          @ show_int (num_or_zero resumePosition) @ ''s'') w
                else w))"

definition launch_guarded ::
  "int \<Rightarrow> stream_id \<Rightarrow> stream_row \<Rightarrow> int option \<Rightarrow> string list \<Rightarrow> world \<Rightarrow> world"
where
  "launch_guarded now sid stream resumePosition ffmpegArgs w =
     (let w1 = addStreamLog now sid
                 (''Starting stream with command: '' @ ffmpegPath @ '' '' @ join_args ffmpegArgs) w;
          w2 = (if truthy resumePosition
                then addStreamLog now sid
                       (''Resuming from position: '' @ show_int (num_or_zero resumePosition) @ ''s'') w1
                else w1)
      in case spawn sid w2 of
           (ffmpegProcess, w3) \<Rightarrow>
             (let w4 = w3\<lparr>activeStreams := (activeStreams w3)(sid \<mapsto> ffmpegProcess)\<rparr>;
                  w5 = w4\<lparr>streamStartTimes := (streamStartTimes w4)(sid \<mapsto> now)\<rparr>;
                  w6 = updateStatus sid ''live'' w5
              in if truthy (duration stream)
                 then scheduleStreamTermination sid (num_or_zero (duration stream)) w6
                 else w6))"

definition startStream_guarded ::
  "int \<Rightarrow> stream_id \<Rightarrow> int option \<Rightarrow> world \<Rightarrow> (error + start_info) \<times> world"
where
  "startStream_guarded now sid resumePosition w =
     (let w1 = (if \<not> truthy resumePosition
                then w\<lparr>streamRetryCount := (streamRetryCount w)(sid \<mapsto> 0)\<rparr>
                else w)
      in if activeStreams w1 sid \<noteq> None then (Inl StreamAlreadyActive, w1)
         else case streams w1 sid of
           None \<Rightarrow> (Inl StreamNotFound, w1)
         | Some stream \<Rightarrow>
             (case buildFFmpegArgs_guarded now sid stream resumePosition w1 of
                (Inl err, w2) \<Rightarrow>
                  (Inl err,
                   addStreamLog now sid (''Failed to start stream: '' @ error_message err) w2)
              | (Inr ffmpegArgs, w2) \<Rightarrow>
                  (Inr \<lparr>isAdvancedMode = use_advanced_settings stream,
                        resumed = truthy resumePosition\<rparr>,
                   launch_guarded now sid stream resumePosition ffmpegArgs w2)))"

subsection \<open>Resume position\<close>

definition calculateResumePosition :: "int \<Rightarrow> stream_id \<Rightarrow> world \<Rightarrow> int \<times> world" where
  "calculateResumePosition now sid w =
     (let basePosition = num_or_zero (streamBasePositions w sid)
      in case streamStartTimes w sid of
           None \<Rightarrow>
             (basePosition,
              addStreamLog now sid
                (''No start time found. Using base resume position: ''
                   @ show_int basePosition @ ''s'') w)
         | Some startTime \<Rightarrow>
             (let elapsedSeconds = max 0 ((now - startTime) div 1000);
                  resumePosition = basePosition + elapsedSeconds
              in (resumePosition,
                  addStreamLog now sid
                    (''Calculated resume position: base='' @ show_int basePosition
                       @ ''s + elapsed='' @ show_int elapsedSeconds
                       @ ''s => '' @ show_int resumePosition @ ''s'')
                    (w\<lparr>streamVideoPositions :=
                         (streamVideoPositions w)(sid \<mapsto> resumePosition)\<rparr>))))"

text \<open>
  The specification's wording of the same function, on the stored base position, the
  stored start time and the clock: \<open>basePosition + max(0, floor(now - startedAt))\<close> in
  seconds, and the stored base position (or 0) when no start time is recorded.
\<close>

definition computeResumePosition_spec :: "int option \<Rightarrow> int option \<Rightarrow> int \<Rightarrow> int" where
  "computeResumePosition_spec basePosition startedAt now =
     (case startedAt of
        None \<Rightarrow> (case basePosition of None \<Rightarrow> 0 | Some b \<Rightarrow> b)
      | Some t \<Rightarrow>
          (case basePosition of None \<Rightarrow> 0 | Some b \<Rightarrow> b)
            + max 0 \<lfloor>(rat_of_int now - rat_of_int t) / 1000\<rfloor>)"

text \<open>The number \<open>calculateResumePosition\<close> returns, as a function of the state.\<close>

definition resume_at :: "int \<Rightarrow> stream_id \<Rightarrow> world \<Rightarrow> int" where
  "resume_at now sid w =
     num_or_zero (streamBasePositions w sid)
       + (case streamStartTimes w sid of
            None \<Rightarrow> 0
          | Some startTime \<Rightarrow> max 0 ((now - startTime) div 1000))"

subsection \<open>Retry and backoff\<close>

text \<open>\<open>Math.min(3000 * Math.pow(2, retryCount - 1), 30000)\<close>\<close>

definition backoffDelay :: "nat \<Rightarrow> rat" where
  "backoffDelay retryCount = min (3000 * (2 powi (int retryCount - 1))) 30000"

definition show_delay :: "rat \<Rightarrow> string" where
  "show_delay d = show_int \<lfloor>d\<rfloor>"

definition handleStreamCrash :: "int \<Rightarrow> stream_id \<Rightarrow> string \<Rightarrow> world \<Rightarrow> world" where
  "handleStreamCrash now sid reason w =
     (let retryCount = count_or_zero (streamRetryCount w sid)
      in if retryCount < MAX_RETRY_ATTEMPTS
         then (let w1 = w\<lparr>streamRetryCount := (streamRetryCount w)(sid \<mapsto> retryCount + 1)\<rparr>;
                   w2 = addStreamLog now sid
                          (''FFmpeg crashed with '' @ reason @ ''. Attempting restart #''
                             @ show_int (int (retryCount + 1))) w1
               in case calculateResumePosition now sid w2 of
                    (resumePosition, w3) \<Rightarrow> setTimeout (CrashRestart sid resumePosition) 3000 w3)
         else updateStatus sid ''offline''
                (addStreamLog now sid
                   (''Maximum retry attempts ('' @ show_int (int MAX_RETRY_ATTEMPTS)
                      @ '') reached, stopping stream'') w))"

definition handleStreamError ::
  "int \<Rightarrow> stream_id \<Rightarrow> int option \<Rightarrow> string option \<Rightarrow> world \<Rightarrow> world"
where
  "handleStreamError now sid code signal w0 =
     (let w = addStreamLog now sid
                (''FFmpeg process exited with error code '' @ show_code code) w0;
          retryCount = count_or_zero (streamRetryCount w sid)
      in if retryCount < MAX_RETRY_ATTEMPTS
         then (let w1 = w\<lparr>streamRetryCount := (streamRetryCount w)(sid \<mapsto> retryCount + 1)\<rparr>
               in case calculateResumePosition now sid w1 of
                    (resumePosition, w2) \<Rightarrow>
                      setTimeout (ErrorRestart sid resumePosition retryCount)
                        (backoffDelay retryCount)
                        (addStreamLog now sid
                           (''Scheduling restart in '' @ show_delay (backoffDelay retryCount)
                              @ ''ms with resume position: '' @ show_int resumePosition @ ''s'')
                           w2))
         else updateStatus sid ''offline''
                (addStreamLog now sid
                   (''Maximum retry attempts ('' @ show_int (int MAX_RETRY_ATTEMPTS)
                      @ '') reached, stopping stream'') w))"

text \<open>The callbacks handed to \<open>setTimeout\<close> by the two handlers.\<close>

definition crashRestart :: "int \<Rightarrow> stream_id \<Rightarrow> int \<Rightarrow> world \<Rightarrow> world" where
  "crashRestart now sid resumePosition w =
     (case streams w sid of
        None \<Rightarrow> w
      | Some streamInfo \<Rightarrow>
          (case startStream now sid (Some resumePosition) w of
             (Inl err, w1) \<Rightarrow> updateStatus sid ''offline'' w1
           | (Inr info, w1) \<Rightarrow> w1))"

definition errorRestart :: "int \<Rightarrow> stream_id \<Rightarrow> int \<Rightarrow> nat \<Rightarrow> world \<Rightarrow> world" where
  "errorRestart now sid resumePosition retryCount w =
     (case streams w sid of
        None \<Rightarrow> addStreamLog now sid ''Cannot restart: stream not found in database'' w
      | Some streamInfo \<Rightarrow>
          (case startStream now sid (Some resumePosition)
                  (addStreamLog now sid
                     (''Attempting restart #'' @ show_int (int (retryCount + 1)) @ ''...'') w) of
             (Inl err, w1) \<Rightarrow>
               updateStatus sid ''offline''
                 (addStreamLog now sid (''Restart failed: '' @ error_message err) w1)
           | (Inr info, w1) \<Rightarrow>
               addStreamLog now sid
                 (''Restart successful, resumed from position: ''
                    @ show_int resumePosition @ ''s'') w1))"

subsection \<open>Process events\<close>

text \<open>\<open>ffmpegProcess.on('exit', async (code, signal) => ...)\<close> of the process spawned for \<open>sid\<close>.\<close>

definition offlineAfterExit :: "stream_id \<Rightarrow> bool \<Rightarrow> world \<Rightarrow> world" where
  "offlineAfterExit sid wasActive w =
     (if wasActive then handleStreamStopped sid (updateStatus sid ''offline'' w) else w)"

definition on_exit ::
  "int \<Rightarrow> stream_id \<Rightarrow> int option \<Rightarrow> string option \<Rightarrow> world \<Rightarrow> world"
where
  "on_exit now sid code signal w0 =
     (let w1 = addStreamLog now sid
                 (''Stream ended with code '' @ show_code code
                    @ '', signal: '' @ show_signal signal) w0;
          wasActive = (activeStreams w1 sid \<noteq> None);
          w2 = w1\<lparr>activeStreams := (activeStreams w1)(sid := None)\<rparr>;
          isManualStop = (sid \<in> manuallyStoppingStreams w2)
      in if isManualStop
         then offlineAfterExit sid wasActive
                (w2\<lparr>manuallyStoppingStreams := manuallyStoppingStreams w2 - {sid}\<rparr>)
         else if signal = Some ''SIGSEGV'' then handleStreamCrash now sid ''SIGSEGV'' w2
         else if code \<noteq> Some 0 \<and> code \<noteq> None then handleStreamError now sid code signal w2
         else offlineAfterExit sid wasActive w2)"

text \<open>\<open>ffmpegProcess.on('error', async (err) => ...)\<close>\<close>

definition on_error :: "int \<Rightarrow> stream_id \<Rightarrow> string \<Rightarrow> world \<Rightarrow> world" where
  "on_error now sid err w =
     updateStatus sid ''offline''
       ((addStreamLog now sid (''Error in stream process: '' @ err) w)
          \<lparr>activeStreams := (activeStreams w)(sid := None)\<rparr>)"

subsection \<open>Stopping a stream\<close>

definition cleanupStreamData :: "stream_id \<Rightarrow> world \<Rightarrow> world" where
  "cleanupStreamData sid w =
     w\<lparr>streamStartTimes := (streamStartTimes w)(sid := None),
       streamVideoPositions := (streamVideoPositions w)(sid := None),
       streamBasePositions := (streamBasePositions w)(sid := None),
       streamRetryCount := (streamRetryCount w)(sid := None),
       streamLogs := (streamLogs w)(sid := None)\<rparr>"

definition stopStream :: "int \<Rightarrow> stream_id \<Rightarrow> world \<Rightarrow> (error + string) \<times> world" where
  "stopStream now sid w =
     (case activeStreams w sid of
        None \<Rightarrow>
          (case streams w sid of
             None \<Rightarrow> (Inl StreamNotActive, w)
           | Some stream \<Rightarrow>
               if status stream = ''live''
               then (Inr ''Stream status fixed (was not active but marked as live)'',
                     handleStreamStopped sid (updateStatus sid ''offline'' w))
               else (Inl StreamNotActive, w))
      | Some ffmpegProcess \<Rightarrow>
          (let w1 = addStreamLog now sid ''Stopping stream...'' w;
               w2 = w1\<lparr>manuallyStoppingStreams := insert sid (manuallyStoppingStreams w1)\<rparr>;
               w3 = kill ffmpegProcess ''SIGTERM'' w2;
               w4 = w3\<lparr>activeStreams := (activeStreams w3)(sid := None)\<rparr>;
               w5 = cleanupStreamData sid w4;
               w6 = updateStatus sid ''offline'' w5
           in (Inr ''Stream stopped successfully'', handleStreamStopped sid w6)))"

subsection \<open>Health check\<close>

definition healthRecovery :: "int \<Rightarrow> stream_id \<Rightarrow> int \<Rightarrow> world \<Rightarrow> world" where
  "healthRecovery now sid resumePosition w =
     (case startStream now sid (Some resumePosition) w of
        (Inl err, w1) \<Rightarrow>
          addStreamLog now sid (''Health check recovery failed: '' @ error_message err) w1
      | (Inr info, w1) \<Rightarrow> addStreamLog now sid ''Health check recovery successful'' w1)"

definition checkStreamHealth :: "int \<Rightarrow> stream_id \<Rightarrow> world \<Rightarrow> bool \<times> world" where
  "checkStreamHealth now sid w =
     (case streams w sid of
        None \<Rightarrow> (False, w)
      | Some stream \<Rightarrow>
          if status stream = ''live'' \<and> activeStreams w sid = None
               \<and> count_or_zero (streamRetryCount w sid) < MAX_RETRY_ATTEMPTS
          then (case calculateResumePosition now sid
                       (addStreamLog now sid
                          ''Stream health check: stream marked as live but not active, attempting recovery''
                          w) of
                  (resumePosition, w1) \<Rightarrow>
                    (True, setTimeout (HealthRecovery sid resumePosition) 5000 w1))
          else (False, w))"

subsection \<open>Runs\<close>

text \<open>
  Everything that can happen to the supervisor: a call of \<open>startStream\<close> or \<open>stopStream\<close>
  from outside, a health check, the exit or error event of a child, and a pending
  timer firing.  A run is a list of such events, each with the instant it happens at.
\<close>

datatype event =
    Start stream_id "int option"
  | Stop stream_id
  | Health stream_id
  | Exit pid "int option" "string option"
  | ProcessError pid string
  | Fire nat



fun run_timer :: "int \<Rightarrow> timer_action \<Rightarrow> world \<Rightarrow> world" where
  "run_timer now (CrashRestart sid resumePosition) w = crashRestart now sid resumePosition w"
| "run_timer now (ErrorRestart sid resumePosition retryCount) w =
     errorRestart now sid resumePosition retryCount w"
| "run_timer now (HealthRecovery sid resumePosition) w = healthRecovery now sid resumePosition w"

fun step :: "int \<Rightarrow> event \<Rightarrow> world \<Rightarrow> world" where
  "step now (Start sid resumePosition) w = snd (startStream now sid resumePosition w)"
| "step now (Stop sid) w = snd (stopStream now sid w)"
| "step now (Health sid) w = snd (checkStreamHealth now sid w)"
| "step now (Exit p code signal) w =
     (case processes w p of
        None \<Rightarrow> w
      | Some sid \<Rightarrow> on_exit now sid code signal (w\<lparr>processes := (processes w)(p := None)\<rparr>))"
| "step now (ProcessError p err) w =
     (case processes w p of None \<Rightarrow> w | Some sid \<Rightarrow> on_error now sid err w)"
| "step now (Fire i) w =
     (if i < length (timers w)
      then run_timer now (snd (timers w ! i))
             (w\<lparr>timers := take i (timers w) @ drop (Suc i) (timers w)\<rparr>)
      else w)"

fun run :: "(int \<times> event) list \<Rightarrow> world \<Rightarrow> world" where
  "run [] w = w"
| "run ((now, e) # rest) w = run rest (step now e w)"



text \<open>
  What the handling of one process's failure reads of the state: the base position, the
  start time and the retry count of its stream, whether a manual stop of the stream is
  pending, and whether the process is alive for that stream.
\<close>

definition instance_view ::
  "stream_id \<Rightarrow> pid \<Rightarrow> world \<Rightarrow> int option \<times> int option \<times> nat option \<times> bool \<times> bool" where
  "instance_view sid p w =
     (streamBasePositions w sid, streamStartTimes w sid, streamRetryCount w sid,
      sid \<in> manuallyStoppingStreams w, processes w p = Some sid)"

text \<open>
  A run of failures that come quickly: for each \<open>k < n\<close> the process \<open>k\<close>, started at
  \<open>2000 k\<close> ms, exits with code 1 half a second later, and its restart timer fires at
  \<open>2000 (k + 1)\<close> ms.
\<close>

fun quick_failure_cycles :: "nat \<Rightarrow> (int \<times> event) list" where
  "quick_failure_cycles 0 = []"
| "quick_failure_cycles (Suc n) =
     quick_failure_cycles n
       @ [(2000 * int n + 500, Exit n (Some 1) None), (2000 * int n + 2000, Fire 0)]"

text \<open>The processes alive for one stream id.\<close>

definition live_processes :: "stream_id \<Rightarrow> world \<Rightarrow> pid set" where
  "live_processes sid w = {p. processes w p = Some sid}"

text \<open>
  The state of the module when it is loaded (all maps empty), over a store holding one
  stream \<open>''s1''\<close> marked offline, whose video record and file exist.
\<close>

definition demo_row :: stream_row where
  "demo_row = \<lparr>status = ''offline'', video_id = ''v1'', user_id = ''u1'',
               duration = None, use_advanced_settings = False\<rparr>"

definition demo :: world where
  "demo = \<lparr>activeStreams = Map.empty, streamLogs = Map.empty, streamRetryCount = Map.empty,
           streamStartTimes = Map.empty, streamVideoPositions = Map.empty,
           streamBasePositions = Map.empty, manuallyStoppingStreams = {},
           streams = [''s1'' \<mapsto> demo_row],
           videos = [''v1'' \<mapsto> \<lparr>filepath = ''/uploads/a.mp4''\<rparr>],
           public_files = {''uploads/a.mp4''},
           invocation = (\<lambda>path stream resumePosition. [''-i'', path]),
           processes = Map.empty, next_pid = 0, signals = [], timers = [], scheduler = []\<rparr>"

text \<open>
  The state such a run is in after \<open>n\<close> cycles over \<open>demo\<close>: process \<open>n\<close> is the running
  instance of \<open>''s1''\<close>, started at \<open>2000 n\<close> ms from position 0, the stream is live, no retry
  is counted and no timer is pending.
\<close>

definition quick_instance :: "nat \<Rightarrow> world \<Rightarrow> bool" where
  "quick_instance n w =
     (streams w ''s1'' = Some (demo_row\<lparr>status := ''live''\<rparr>)
      \<and> videos w = videos demo \<and> public_files w = public_files demo
      \<and> ''s1'' \<notin> manuallyStoppingStreams w
      \<and> processes w n = Some ''s1''
      \<and> streamStartTimes w ''s1'' = Some (2000 * int n)
      \<and> streamBasePositions w ''s1'' = Some 0
      \<and> streamVideoPositions w ''s1'' \<noteq> None
      \<and> streamRetryCount w ''s1'' = None
      \<and> timers w = []
      \<and> next_pid w = Suc n)"

subsection \<open>The log buffer is bounded and first-in first-out\<close>

lemma getStreamLogs_addStreamLog:
  "getStreamLogs sid (addStreamLog t sid m w) = push_log (getStreamLogs sid w) (entry_of (t, m))"
  by (simp add: getStreamLogs_def addStreamLog_def entry_of_def)

lemma appendLogs_drop:
  "length (getStreamLogs sid w) \<le> MAX_LOG_LINES \<Longrightarrow>
   getStreamLogs sid (appendLogs sid es w) =
     drop (length (getStreamLogs sid w) + length es - MAX_LOG_LINES)
          (getStreamLogs sid w @ map entry_of es)"
proof (induction es arbitrary: w)
  case Nil
  then show ?case by simp
next
  case (Cons a es)
  obtain t m where a: "a = (t, m)" by (cases a)
  let ?old = "getStreamLogs sid w"
  let ?w' = "addStreamLog t sid m w"
  have new: "getStreamLogs sid ?w' = push_log ?old (entry_of a)"
    by (simp add: getStreamLogs_addStreamLog a)
  have unfold: "getStreamLogs sid (appendLogs sid (a # es) w) =
                  getStreamLogs sid (appendLogs sid es ?w')"
    by (simp add: a)
  show ?case
  proof (cases "length ?old < MAX_LOG_LINES")
    case True
    then have p: "getStreamLogs sid ?w' = ?old @ [entry_of a]"
      by (simp add: new push_log_def)
    have bound: "length (getStreamLogs sid ?w') \<le> MAX_LOG_LINES"
      using True by (simp add: p)
    show ?thesis
      using Cons.IH [OF bound] by (simp add: unfold p)
  next
    case False
    with Cons.prems have full: "length ?old = MAX_LOG_LINES" by simp
    then have p: "getStreamLogs sid ?w' = tl ?old @ [entry_of a]"
      by (cases ?old) (simp_all add: new push_log_def MAX_LOG_LINES_def)
    have bound: "length (getStreamLogs sid ?w') \<le> MAX_LOG_LINES"
      using full by (simp add: p MAX_LOG_LINES_def)
    have "drop (Suc (length es)) (?old @ entry_of a # map entry_of es) =
          drop (length es) (tl ?old @ entry_of a # map entry_of es)"
      using full by (cases ?old) (simp_all add: MAX_LOG_LINES_def)
    then show ?thesis
      using Cons.IH [OF bound] full by (simp add: unfold p MAX_LOG_LINES_def)
  qed
qed

text \<open>
  Claim C9.  For every stream and every sequence of appended log lines, starting from
  a buffer that is within the capacity of 100 entries (an absent buffer is empty), the
  buffer after the appends is the longest suffix of at most 100 entries of the old
  entries followed by the appended ones: its length is the smaller of 100 and the
  total, the oldest entries are the ones evicted and the order of the others is kept.
  Once more than 100 lines have been appended the length is exactly 100 and the buffer
  holds the last 100 appended lines.
\<close>

theorem log_buffer_bounded_fifo:
  assumes "length (getStreamLogs sid w) \<le> MAX_LOG_LINES"
  shows "getStreamLogs sid (appendLogs sid es w) =
           drop (length (getStreamLogs sid w) + length es - MAX_LOG_LINES)
                (getStreamLogs sid w @ map entry_of es)
         \<and> length (getStreamLogs sid (appendLogs sid es w)) =
             min MAX_LOG_LINES (length (getStreamLogs sid w) + length es)
         \<and> (MAX_LOG_LINES < length es \<longrightarrow>
              length (getStreamLogs sid (appendLogs sid es w)) = MAX_LOG_LINES
              \<and> getStreamLogs sid (appendLogs sid es w) =
                  drop (length es - MAX_LOG_LINES) (map entry_of es))"
proof -
  let ?old = "getStreamLogs sid w"
  have eq: "getStreamLogs sid (appendLogs sid es w) =
              drop (length ?old + length es - MAX_LOG_LINES) (?old @ map entry_of es)"
    by (rule appendLogs_drop [OF assms])
  have len: "length (getStreamLogs sid (appendLogs sid es w)) =
               min MAX_LOG_LINES (length ?old + length es)"
    by (simp add: eq)
  have over: "getStreamLogs sid (appendLogs sid es w) =
                drop (length es - MAX_LOG_LINES) (map entry_of es)"
    if "MAX_LOG_LINES < length es"
    using that assms by (simp add: eq)
  show ?thesis using eq len over by simp
qed

theorem log_buffer_bounded_fifo_witness:
  "length (getStreamLogs ''s1'' demo) \<le> MAX_LOG_LINES
   \<and> MAX_LOG_LINES < length (map (\<lambda>i. (int i, ''line'')) [0..<101])
   \<and> getStreamLogs ''s1'' (appendLogs ''s1'' (map (\<lambda>i. (int i, ''line'')) [0..<101]) demo) =
       map (\<lambda>i. \<lparr>timestamp = int i, message = ''line''\<rparr>) [1..<101]"
proof -
  have h: "length (getStreamLogs ''s1'' demo) \<le> MAX_LOG_LINES"
    by (simp add: getStreamLogs_def demo_def)
  have n: "MAX_LOG_LINES < length (map (\<lambda>i. (int i, ''line'')) [0..<101])"
    by (simp add: MAX_LOG_LINES_def)
  from log_buffer_bounded_fifo [OF h, of "map (\<lambda>i. (int i, ''line'')) [0..<101]"] n
  have "getStreamLogs ''s1'' (appendLogs ''s1'' (map (\<lambda>i. (int i, ''line'')) [0..<101]) demo) =
          drop (length (map (\<lambda>i. (int i, ''line'')) [0..<101]) - MAX_LOG_LINES)
               (map entry_of (map (\<lambda>i. (int i, ''line'')) [0..<101]))"
    by blast
  also have "\<dots> = map (\<lambda>i. \<lparr>timestamp = int i, message = ''line''\<rparr>) [1..<101]"
    by (simp add: MAX_LOG_LINES_def entry_of_def drop_map comp_def)
  finally show ?thesis using h n by blast
qed

subsection \<open>What the helpers leave alone\<close>

lemma addStreamLog_frame [simp]:
  "activeStreams (addStreamLog now sid m w) = activeStreams w"
  "streamRetryCount (addStreamLog now sid m w) = streamRetryCount w"
  "streamStartTimes (addStreamLog now sid m w) = streamStartTimes w"
  "streamVideoPositions (addStreamLog now sid m w) = streamVideoPositions w"
  "streamBasePositions (addStreamLog now sid m w) = streamBasePositions w"
  "manuallyStoppingStreams (addStreamLog now sid m w) = manuallyStoppingStreams w"
  "streams (addStreamLog now sid m w) = streams w"
  "videos (addStreamLog now sid m w) = videos w"
  "public_files (addStreamLog now sid m w) = public_files w"
  "invocation (addStreamLog now sid m w) = invocation w"
  "processes (addStreamLog now sid m w) = processes w"
  "next_pid (addStreamLog now sid m w) = next_pid w"
  "signals (addStreamLog now sid m w) = signals w"
  "timers (addStreamLog now sid m w) = timers w"
  "scheduler (addStreamLog now sid m w) = scheduler w"
  by (simp_all add: addStreamLog_def)

lemma addStreamLog_weak_cong:
  "w = w' \<Longrightarrow> addStreamLog now sid m w = addStreamLog now sid m w'"
  by simp

lemma updateStatus_frame [simp]:
  "activeStreams (updateStatus sid st w) = activeStreams w"
  "streamLogs (updateStatus sid st w) = streamLogs w"
  "streamRetryCount (updateStatus sid st w) = streamRetryCount w"
  "streamStartTimes (updateStatus sid st w) = streamStartTimes w"
  "streamVideoPositions (updateStatus sid st w) = streamVideoPositions w"
  "streamBasePositions (updateStatus sid st w) = streamBasePositions w"
  "manuallyStoppingStreams (updateStatus sid st w) = manuallyStoppingStreams w"
  "videos (updateStatus sid st w) = videos w"
  "public_files (updateStatus sid st w) = public_files w"
  "invocation (updateStatus sid st w) = invocation w"
  "processes (updateStatus sid st w) = processes w"
  "next_pid (updateStatus sid st w) = next_pid w"
  "signals (updateStatus sid st w) = signals w"
  "timers (updateStatus sid st w) = timers w"
  "scheduler (updateStatus sid st w) = scheduler w"
  by (simp_all add: updateStatus_def)

lemma streams_updateStatus [simp]:
  "streams (updateStatus sid st w) =
     (streams w)(sid := map_option (\<lambda>row. row\<lparr>status := st\<rparr>) (streams w sid))"
  by (simp add: updateStatus_def)

lemma initPositions_frame [simp]:
  "activeStreams (initPositions now sid r w) = activeStreams w"
  "streamRetryCount (initPositions now sid r w) = streamRetryCount w"
  "streamStartTimes (initPositions now sid r w) = streamStartTimes w"
  "manuallyStoppingStreams (initPositions now sid r w) = manuallyStoppingStreams w"
  "streams (initPositions now sid r w) = streams w"
  "videos (initPositions now sid r w) = videos w"
  "public_files (initPositions now sid r w) = public_files w"
  "invocation (initPositions now sid r w) = invocation w"
  "processes (initPositions now sid r w) = processes w"
  "next_pid (initPositions now sid r w) = next_pid w"
  "signals (initPositions now sid r w) = signals w"
  "timers (initPositions now sid r w) = timers w"
  "scheduler (initPositions now sid r w) = scheduler w"
  by (simp_all add: initPositions_def)

lemma positions_initPositions:
  "streamBasePositions (initPositions now sid r w) =
     (if truthy r \<and> 0 < num_or_zero r then (streamBasePositions w)(sid \<mapsto> num_or_zero r)
      else if streamVideoPositions w sid = None then (streamBasePositions w)(sid \<mapsto> 0)
      else streamBasePositions w)"
  "streamVideoPositions (initPositions now sid r w) =
     (if truthy r \<and> 0 < num_or_zero r then (streamVideoPositions w)(sid \<mapsto> num_or_zero r)
      else if streamVideoPositions w sid = None then (streamVideoPositions w)(sid \<mapsto> 0)
      else streamVideoPositions w)"
  by (simp_all add: initPositions_def)

lemma launch_frame [simp]:
  "streamRetryCount (launch now sid stream r args w) = streamRetryCount w"
  "manuallyStoppingStreams (launch now sid stream r args w) = manuallyStoppingStreams w"
  "videos (launch now sid stream r args w) = videos w"
  "public_files (launch now sid stream r args w) = public_files w"
  "invocation (launch now sid stream r args w) = invocation w"
  "signals (launch now sid stream r args w) = signals w"
  "timers (launch now sid stream r args w) = timers w"
  by (simp_all add: launch_def spawn_def scheduleStreamTermination_def Let_def)

lemma launch_effect [simp]:
  "activeStreams (launch now sid stream r args w) = (activeStreams w)(sid \<mapsto> next_pid w)"
  "processes (launch now sid stream r args w) = (processes w)(next_pid w \<mapsto> sid)"
  "next_pid (launch now sid stream r args w) = Suc (next_pid w)"
  "streamStartTimes (launch now sid stream r args w) = (streamStartTimes w)(sid \<mapsto> now)"
  "streams (launch now sid stream r args w) =
     (streams w)(sid := map_option (\<lambda>row. row\<lparr>status := ''live''\<rparr>) (streams w sid))"
  by (simp_all add: launch_def spawn_def scheduleStreamTermination_def Let_def)

lemma launch_positions:
  "streamBasePositions (launch now sid stream r args w) =
     (if truthy r \<and> 0 < num_or_zero r then (streamBasePositions w)(sid \<mapsto> num_or_zero r)
      else if streamVideoPositions w sid = None then (streamBasePositions w)(sid \<mapsto> 0)
      else streamBasePositions w)"
  "streamVideoPositions (launch now sid stream r args w) =
     (if truthy r \<and> 0 < num_or_zero r then (streamVideoPositions w)(sid \<mapsto> num_or_zero r)
      else if streamVideoPositions w sid = None then (streamVideoPositions w)(sid \<mapsto> 0)
      else streamVideoPositions w)"
  by (auto simp add: launch_def spawn_def scheduleStreamTermination_def Let_def
      positions_initPositions)

subsection \<open>The outcomes of startStream\<close>

lemma startStream_not_found:
  "streams w sid = None \<Longrightarrow>
   startStream now sid r w =
     (Inl StreamNotFound,
      if truthy r then w else w\<lparr>streamRetryCount := (streamRetryCount w)(sid := None)\<rparr>)"
  by (simp add: startStream_def Let_def)

lemma startStream_no_video:
  "streams w sid = Some row \<Longrightarrow> videos w (video_id row) = None \<Longrightarrow>
   startStream now sid r w =
     (Inl (VideoRecordNotFound (video_id row)),
      addStreamLog now sid
        (''Failed to start stream: '' @ error_message (VideoRecordNotFound (video_id row)))
        (if truthy r then w else w\<lparr>streamRetryCount := (streamRetryCount w)(sid := None)\<rparr>))"
  by (simp add: startStream_def buildFFmpegArgs_def Let_def)

lemma startStream_no_file:
  "streams w sid = Some row \<Longrightarrow> videos w (video_id row) = Some v \<Longrightarrow>
   relativeVideoPath (filepath v) \<notin> public_files w \<Longrightarrow>
   startStream now sid r w =
     (Inl VideoFileNotFound,
      addStreamLog now sid (''Failed to start stream: '' @ error_message VideoFileNotFound)
        (if truthy r then w else w\<lparr>streamRetryCount := (streamRetryCount w)(sid := None)\<rparr>))"
  by (simp add: startStream_def buildFFmpegArgs_def Let_def)

lemma startStream_launch:
  "streams w sid = Some row \<Longrightarrow> videos w (video_id row) = Some v \<Longrightarrow>
   relativeVideoPath (filepath v) \<in> public_files w \<Longrightarrow>
   startStream now sid r w =
     (Inr \<lparr>isAdvancedMode = use_advanced_settings row, resumed = truthy r\<rparr>,
      launch now sid row r
        (invocation w (relativeVideoPath (filepath v)) row (num_or_zero r))
        (addStreamLog now sid
           (''Built FFmpeg args: ''
              @ join_args (invocation w (relativeVideoPath (filepath v)) row (num_or_zero r)))
           (if truthy r then w
            else w\<lparr>streamRetryCount := (streamRetryCount w)(sid := None)\<rparr>)))"
  by (simp add: startStream_def buildFFmpegArgs_def Let_def)

lemma startStream_outcome:
  obtains (not_found) "streams w sid = None"
  | (no_video) row where "streams w sid = Some row" "videos w (video_id row) = None"
  | (no_file) row v where "streams w sid = Some row" "videos w (video_id row) = Some v"
      "relativeVideoPath (filepath v) \<notin> public_files w"
  | (launch) row v where "streams w sid = Some row" "videos w (video_id row) = Some v"
      "relativeVideoPath (filepath v) \<in> public_files w"
  by (cases "streams w sid"; cases "videos w (video_id (the (streams w sid)))") auto

lemma startStream_success:
  assumes "fst (startStream now sid r w) = Inr info"
  obtains row v where "streams w sid = Some row" "videos w (video_id row) = Some v"
      "relativeVideoPath (filepath v) \<in> public_files w"
  using assms
  by (cases rule: startStream_outcome [of w sid])
     (simp_all add: startStream_not_found startStream_no_video startStream_no_file)

text \<open>
  Claim C10.  \<open>startStream\<close> called without a resume position deletes the stored retry
  count of the stream before it checks anything, so the count is gone whatever the call
  returns: in particular when it fails because the stream record is not found, because
  the video record is missing, or because the media file is absent.  A failed fresh
  start therefore does change the session state.
\<close>

theorem startStream_fresh_clears_retryCount:
  "streamRetryCount (snd (startStream now sid None w)) sid = None
   \<and> (streams w sid = None \<longrightarrow> fst (startStream now sid None w) = Inl StreamNotFound)
   \<and> (\<forall>row. streams w sid = Some row \<and> videos w (video_id row) = None \<longrightarrow>
         fst (startStream now sid None w) = Inl (VideoRecordNotFound (video_id row)))
   \<and> (\<forall>row v. streams w sid = Some row \<and> videos w (video_id row) = Some v
           \<and> relativeVideoPath (filepath v) \<notin> public_files w \<longrightarrow>
         fst (startStream now sid None w) = Inl VideoFileNotFound)"
proof -
  have "streamRetryCount (snd (startStream now sid None w)) sid = None"
    by (cases rule: startStream_outcome [of w sid])
       (simp_all add: startStream_not_found startStream_no_video startStream_no_file
          startStream_launch truthy_def)
  then show ?thesis
    by (simp add: startStream_not_found startStream_no_video startStream_no_file)
qed

theorem startStream_fresh_clears_retryCount_witness:
  "streamRetryCount (demo\<lparr>streamRetryCount := [''s1'' \<mapsto> 2], streams := Map.empty\<rparr>) ''s1'' = Some 2
   \<and> fst (startStream 0 ''s1'' None (demo\<lparr>streamRetryCount := [''s1'' \<mapsto> 2], streams := Map.empty\<rparr>))
       = Inl StreamNotFound
   \<and> streamRetryCount
        (snd (startStream 0 ''s1'' None
                (demo\<lparr>streamRetryCount := [''s1'' \<mapsto> 2], streams := Map.empty\<rparr>))) ''s1'' = None
   \<and> fst (startStream 0 ''s1'' None (demo\<lparr>streamRetryCount := [''s1'' \<mapsto> 2], videos := Map.empty\<rparr>))
       = Inl (VideoRecordNotFound ''v1'')
   \<and> streamRetryCount
        (snd (startStream 0 ''s1'' None
                (demo\<lparr>streamRetryCount := [''s1'' \<mapsto> 2], videos := Map.empty\<rparr>))) ''s1'' = None
   \<and> fst (startStream 0 ''s1'' None (demo\<lparr>streamRetryCount := [''s1'' \<mapsto> 2], public_files := {}\<rparr>))
       = Inl VideoFileNotFound
   \<and> streamRetryCount
        (snd (startStream 0 ''s1'' None
                (demo\<lparr>streamRetryCount := [''s1'' \<mapsto> 2], public_files := {}\<rparr>))) ''s1'' = None"
proof -
  let ?a = "demo\<lparr>streamRetryCount := [''s1'' \<mapsto> 2], streams := Map.empty\<rparr>"
  let ?b = "demo\<lparr>streamRetryCount := [''s1'' \<mapsto> 2], videos := Map.empty\<rparr>"
  let ?c = "demo\<lparr>streamRetryCount := [''s1'' \<mapsto> 2], public_files := {}\<rparr>"
  have before: "streamRetryCount ?a ''s1'' = Some 2" by simp
  have a: "streams ?a ''s1'' = None" by simp
  have b: "streams ?b ''s1'' = Some demo_row \<and> videos ?b (video_id demo_row) = None"
    by (simp add: demo_def)
  have c: "streams ?c ''s1'' = Some demo_row
           \<and> videos ?c (video_id demo_row) = Some \<lparr>filepath = ''/uploads/a.mp4''\<rparr>
           \<and> relativeVideoPath (filepath \<lparr>filepath = ''/uploads/a.mp4''\<rparr>) \<notin> public_files ?c"
    by (simp add: demo_def demo_row_def)
  have v: "video_id demo_row = ''v1''" by (simp add: demo_row_def)
  from startStream_fresh_clears_retryCount [of 0 "''s1''" ?a] a
  have ra: "fst (startStream 0 ''s1'' None ?a) = Inl StreamNotFound
          \<and> streamRetryCount (snd (startStream 0 ''s1'' None ?a)) ''s1'' = None"
    by blast
  from startStream_fresh_clears_retryCount [of 0 "''s1''" ?b] b
  have rb: "fst (startStream 0 ''s1'' None ?b) = Inl (VideoRecordNotFound (video_id demo_row))
          \<and> streamRetryCount (snd (startStream 0 ''s1'' None ?b)) ''s1'' = None"
    by blast
  from startStream_fresh_clears_retryCount [of 0 "''s1''" ?c] c
  have rc: "fst (startStream 0 ''s1'' None ?c) = Inl VideoFileNotFound
          \<and> streamRetryCount (snd (startStream 0 ''s1'' None ?c)) ''s1'' = None"
    by blast
  from before ra rb rc show ?thesis unfolding v by blast
qed

subsection \<open>Evaluating runs\<close>

lemmas run_defs = startStream_def buildFFmpegArgs_def launch_def initPositions_def spawn_def
  updateStatus_def truthy_def num_or_zero_def count_or_zero_def
  relativeVideoPath_def scheduleStreamTermination_def handleStreamStopped_def
  on_exit_def handleStreamError_def handleStreamCrash_def calculateResumePosition_def
  setTimeout_def offlineAfterExit_def MAX_RETRY_ATTEMPTS_def backoffDelay_def
  crashRestart_def errorRestart_def stopStream_def kill_def cleanupStreamData_def
  demo_def demo_row_def Let_def power_int_def

lemma run_append: "run (xs @ ys) w = run ys (run xs w)"
  by (induction xs arbitrary: w) auto

subsection \<open>Starting a stream that is active\<close>

text \<open>
  On any state: a successful \<open>startStream\<close> for a stream whose registered process is
  alive leaves that process alive, spawns another one for the same stream and registers
  the new one in its place.
\<close>

lemma startStream_spawns_beside_active:
  assumes "fst (startStream now sid r w) = Inr info"
    and "activeStreams w sid = Some p" and "processes w p = Some sid" and "p \<noteq> next_pid w"
  shows "processes (snd (startStream now sid r w)) p = Some sid"
    and "processes (snd (startStream now sid r w)) (next_pid w) = Some sid"
    and "activeStreams (snd (startStream now sid r w)) sid = Some (next_pid w)"
proof -
  from assms(1) obtain row v where ok: "streams w sid = Some row"
      "videos w (video_id row) = Some v" "relativeVideoPath (filepath v) \<in> public_files w"
    by (rule startStream_success)
  note L = startStream_launch [OF ok]
  show "processes (snd (startStream now sid r w)) p = Some sid"
    using assms by (simp add: L)
  show "processes (snd (startStream now sid r w)) (next_pid w) = Some sid"
    by (simp add: L)
  show "activeStreams (snd (startStream now sid r w)) sid = Some (next_pid w)"
    by (simp add: L)
qed

lemma startStream_guarded_refuses:
  assumes "activeStreams w sid = Some p"
  shows "fst (startStream_guarded now sid r w) = Inl StreamAlreadyActive"
    and "processes (snd (startStream_guarded now sid r w)) = processes w"
    and "activeStreams (snd (startStream_guarded now sid r w)) = activeStreams w"
    and "next_pid (snd (startStream_guarded now sid r w)) = next_pid w"
  using assms by (simp_all add: startStream_guarded_def Let_def)

text \<open>
  The same without any call from outside: after an error exit the restart is pending and
  the stream is still marked live, so a health check in the meantime schedules a recovery
  as well; both callbacks call \<open>startStream\<close>, and both spawn.
\<close>

lemma retry_and_health_recovery_both_spawn:
  "timers (run [(0, Start ''s1'' None), (12000, Exit 0 (Some 1) None),
                (12100, Health ''s1'')] demo)
     = [(1500, ErrorRestart ''s1'' 12 0), (5000, HealthRecovery ''s1'' 12)]
   \<and> processes (run [(0, Start ''s1'' None), (12000, Exit 0 (Some 1) None),
                      (12100, Health ''s1''), (13500, Fire 0), (17100, Fire 0)] demo)
       = [1 \<mapsto> ''s1'', 2 \<mapsto> ''s1'']
   \<and> activeStreams (run [(0, Start ''s1'' None), (12000, Exit 0 (Some 1) None),
                          (12100, Health ''s1''), (13500, Fire 0), (17100, Fire 0)] demo) ''s1''
       = Some 2"
  by (simp add: run_defs checkStreamHealth_def healthRecovery_def numeral_2_eq_2
      cong: addStreamLog_weak_cong)

text \<open>
  Claim C1.  The claim is that \<open>startStream\<close> refuses a stream id that is present in
  the registry, so that at most one process is alive per stream id.  The service does
  not check the registry: a second \<open>startStream(''s1'')\<close> one millisecond after the first
  succeeds, spawns process 1 beside process 0, which is still alive, and overwrites the
  registry entry.  The second copy of the service does refuse
  (\<open>startStream_guarded_refuses\<close>).
\<close>

theorem startStream_spawns_second_process:
  "activeStreams (run [(0, Start ''s1'' None)] demo) ''s1'' = Some 0
   \<and> live_processes ''s1'' (run [(0, Start ''s1'' None)] demo) = {0}
   \<and> fst (startStream 1 ''s1'' None (run [(0, Start ''s1'' None)] demo))
       = Inr \<lparr>isAdvancedMode = False, resumed = False\<rparr>
   \<and> live_processes ''s1'' (run [(0, Start ''s1'' None), (1, Start ''s1'' None)] demo) = {0, 1}
   \<and> activeStreams (run [(0, Start ''s1'' None), (1, Start ''s1'' None)] demo) ''s1'' = Some 1"
proof -
  have p1: "processes (run [(0, Start ''s1'' None)] demo) = [0 \<mapsto> ''s1'']"
    by (simp add: run_defs cong: addStreamLog_weak_cong)
  have p2: "processes (run [(0, Start ''s1'' None), (1, Start ''s1'' None)] demo)
              = [0 \<mapsto> ''s1'', 1 \<mapsto> ''s1'']"
    by (simp add: run_defs cong: addStreamLog_weak_cong)
  have l1: "live_processes ''s1'' (run [(0, Start ''s1'' None)] demo) = {0}"
    unfolding live_processes_def p1 by auto
  have l2: "live_processes ''s1'' (run [(0, Start ''s1'' None), (1, Start ''s1'' None)] demo) = {0, 1}"
    unfolding live_processes_def p2 by auto
  have rest: "activeStreams (run [(0, Start ''s1'' None)] demo) ''s1'' = Some 0
      \<and> fst (startStream 1 ''s1'' None (run [(0, Start ''s1'' None)] demo))
          = Inr \<lparr>isAdvancedMode = False, resumed = False\<rparr>
      \<and> activeStreams (run [(0, Start ''s1'' None), (1, Start ''s1'' None)] demo) ''s1'' = Some 1"
    by (simp add: run_defs cong: addStreamLog_weak_cong)
  from l1 l2 rest show ?thesis by blast
qed

subsection \<open>The resume position\<close>

lemma calculateResumePosition_fst [simp]:
  "fst (calculateResumePosition now sid w) = resume_at now sid w"
  by (simp add: calculateResumePosition_def resume_at_def Let_def split: option.split)

lemma calculateResumePosition_frame [simp]:
  "activeStreams (snd (calculateResumePosition now sid w)) = activeStreams w"
  "streamRetryCount (snd (calculateResumePosition now sid w)) = streamRetryCount w"
  "streamStartTimes (snd (calculateResumePosition now sid w)) = streamStartTimes w"
  "streamBasePositions (snd (calculateResumePosition now sid w)) = streamBasePositions w"
  "manuallyStoppingStreams (snd (calculateResumePosition now sid w)) = manuallyStoppingStreams w"
  "streams (snd (calculateResumePosition now sid w)) = streams w"
  "videos (snd (calculateResumePosition now sid w)) = videos w"
  "public_files (snd (calculateResumePosition now sid w)) = public_files w"
  "processes (snd (calculateResumePosition now sid w)) = processes w"
  "next_pid (snd (calculateResumePosition now sid w)) = next_pid w"
  "signals (snd (calculateResumePosition now sid w)) = signals w"
  "timers (snd (calculateResumePosition now sid w)) = timers w"
  "scheduler (snd (calculateResumePosition now sid w)) = scheduler w"
  by (simp_all add: calculateResumePosition_def Let_def split: option.split)

lemma resume_at_frame [simp]:
  "resume_at now sid (addStreamLog t sid' m w) = resume_at now sid w"
  "resume_at now sid (w\<lparr>activeStreams := a\<rparr>) = resume_at now sid w"
  "resume_at now sid (w\<lparr>processes := p\<rparr>) = resume_at now sid w"
  "resume_at now sid (w\<lparr>streamRetryCount := c\<rparr>) = resume_at now sid w"
  by (simp_all add: resume_at_def)

text \<open>
  Claim C6.  \<open>calculateResumePosition\<close> returns the stored base position (0 when none
  is stored) plus the whole seconds elapsed since the recorded start time, floored and
  never negative; when no start time is recorded it returns the stored base position, or
  0 when none is stored.
\<close>

theorem calculateResumePosition_matches_spec:
  "fst (calculateResumePosition now sid w) =
     computeResumePosition_spec (streamBasePositions w sid) (streamStartTimes w sid) now"
proof -
  have fl: "\<lfloor>(rat_of_int now - rat_of_int t) / 1000\<rfloor> = (now - t) div 1000" for t
  proof -
    have "(rat_of_int now - rat_of_int t) / 1000 = rat_of_int (now - t) / rat_of_int 1000"
      by simp
    then show ?thesis by (simp only: floor_divide_of_int_eq)
  qed
  show ?thesis
    by (simp add: resume_at_def computeResumePosition_spec_def num_or_zero_def fl
        split: option.splits)
qed

subsection \<open>The failure handlers\<close>

lemma handleStreamCrash_retry:
  assumes "count_or_zero (streamRetryCount w sid) < MAX_RETRY_ATTEMPTS"
  shows "timers (handleStreamCrash now sid reason w) =
           timers w @ [(3000, CrashRestart sid (resume_at now sid w))]"
    and "streamRetryCount (handleStreamCrash now sid reason w) =
           (streamRetryCount w)(sid \<mapsto> count_or_zero (streamRetryCount w sid) + 1)"
    and "streams (handleStreamCrash now sid reason w) = streams w"
    and "activeStreams (handleStreamCrash now sid reason w) = activeStreams w"
    and "processes (handleStreamCrash now sid reason w) = processes w"
  using assms
  by (simp_all add: handleStreamCrash_def setTimeout_def Let_def split_beta resume_at_def)

lemma handleStreamCrash_exhausted:
  assumes "\<not> count_or_zero (streamRetryCount w sid) < MAX_RETRY_ATTEMPTS"
  shows "timers (handleStreamCrash now sid reason w) = timers w"
    and "streamRetryCount (handleStreamCrash now sid reason w) = streamRetryCount w"
    and "streams (handleStreamCrash now sid reason w) =
           (streams w)(sid := map_option (\<lambda>row. row\<lparr>status := ''offline''\<rparr>) (streams w sid))"
    and "activeStreams (handleStreamCrash now sid reason w) = activeStreams w"
    and "processes (handleStreamCrash now sid reason w) = processes w"
  using assms by (simp_all add: handleStreamCrash_def Let_def)

lemma handleStreamCrash_frame [simp]:
  "activeStreams (handleStreamCrash now sid reason w) = activeStreams w"
  "streamStartTimes (handleStreamCrash now sid reason w) = streamStartTimes w"
  "streamBasePositions (handleStreamCrash now sid reason w) = streamBasePositions w"
  "manuallyStoppingStreams (handleStreamCrash now sid reason w) = manuallyStoppingStreams w"
  "videos (handleStreamCrash now sid reason w) = videos w"
  "public_files (handleStreamCrash now sid reason w) = public_files w"
  "processes (handleStreamCrash now sid reason w) = processes w"
  "next_pid (handleStreamCrash now sid reason w) = next_pid w"
  "signals (handleStreamCrash now sid reason w) = signals w"
  by (simp_all add: handleStreamCrash_def setTimeout_def Let_def split_beta)

lemma handleStreamCrash_retryCount:
  "streamRetryCount (handleStreamCrash now sid reason w) =
     (if count_or_zero (streamRetryCount w sid) < MAX_RETRY_ATTEMPTS
      then (streamRetryCount w)(sid \<mapsto> count_or_zero (streamRetryCount w sid) + 1)
      else streamRetryCount w)"
  by (simp add: handleStreamCrash_retry handleStreamCrash_exhausted)

lemma handleStreamError_retry:
  assumes "count_or_zero (streamRetryCount w sid) < MAX_RETRY_ATTEMPTS"
  shows "timers (handleStreamError now sid code signal w) =
           timers w @ [(backoffDelay (count_or_zero (streamRetryCount w sid)),
                        ErrorRestart sid (resume_at now sid w)
                          (count_or_zero (streamRetryCount w sid)))]"
    and "streamRetryCount (handleStreamError now sid code signal w) =
           (streamRetryCount w)(sid \<mapsto> count_or_zero (streamRetryCount w sid) + 1)"
    and "streams (handleStreamError now sid code signal w) = streams w"
    and "activeStreams (handleStreamError now sid code signal w) = activeStreams w"
    and "processes (handleStreamError now sid code signal w) = processes w"
  using assms
  by (simp_all add: handleStreamError_def setTimeout_def Let_def split_beta resume_at_def)

lemma handleStreamError_exhausted:
  assumes "\<not> count_or_zero (streamRetryCount w sid) < MAX_RETRY_ATTEMPTS"
  shows "timers (handleStreamError now sid code signal w) = timers w"
    and "streamRetryCount (handleStreamError now sid code signal w) = streamRetryCount w"
    and "streams (handleStreamError now sid code signal w) =
           (streams w)(sid := map_option (\<lambda>row. row\<lparr>status := ''offline''\<rparr>) (streams w sid))"
    and "activeStreams (handleStreamError now sid code signal w) = activeStreams w"
    and "processes (handleStreamError now sid code signal w) = processes w"
  using assms by (simp_all add: handleStreamError_def Let_def)

lemma handleStreamError_frame [simp]:
  "activeStreams (handleStreamError now sid code signal w) = activeStreams w"
  "streamStartTimes (handleStreamError now sid code signal w) = streamStartTimes w"
  "streamBasePositions (handleStreamError now sid code signal w) = streamBasePositions w"
  "manuallyStoppingStreams (handleStreamError now sid code signal w) = manuallyStoppingStreams w"
  "videos (handleStreamError now sid code signal w) = videos w"
  "public_files (handleStreamError now sid code signal w) = public_files w"
  "processes (handleStreamError now sid code signal w) = processes w"
  "next_pid (handleStreamError now sid code signal w) = next_pid w"
  "signals (handleStreamError now sid code signal w) = signals w"
  by (simp_all add: handleStreamError_def setTimeout_def Let_def split_beta)

lemma handleStreamError_retryCount:
  "streamRetryCount (handleStreamError now sid code signal w) =
     (if count_or_zero (streamRetryCount w sid) < MAX_RETRY_ATTEMPTS
      then (streamRetryCount w)(sid \<mapsto> count_or_zero (streamRetryCount w sid) + 1)
      else streamRetryCount w)"
  by (simp add: handleStreamError_retry handleStreamError_exhausted)

lemma offlineAfterExit_retryCount [simp]:
  "streamRetryCount (offlineAfterExit sid b w) = streamRetryCount w"
  by (simp add: offlineAfterExit_def handleStreamStopped_def)

lemma backoffDelay_values:
  "backoffDelay 0 = 1500" "backoffDelay 1 = 3000" "backoffDelay 2 = 6000"
  by (simp_all add: backoffDelay_def power_int_def)

lemma on_exit_crash:
  assumes "sid \<notin> manuallyStoppingStreams w"
  shows "on_exit now sid code (Some ''SIGSEGV'') w =
           handleStreamCrash now sid ''SIGSEGV''
             ((addStreamLog now sid
                 (''Stream ended with code '' @ show_code code
                    @ '', signal: '' @ show_signal (Some ''SIGSEGV'')) w)
              \<lparr>activeStreams := (activeStreams w)(sid := None)\<rparr>)"
  using assms by (simp add: on_exit_def Let_def)

lemma on_exit_error:
  assumes "sid \<notin> manuallyStoppingStreams w" "signal \<noteq> Some ''SIGSEGV''"
    "code \<noteq> Some 0" "code \<noteq> None"
  shows "on_exit now sid code signal w =
           handleStreamError now sid code signal
             ((addStreamLog now sid
                 (''Stream ended with code '' @ show_code code
                    @ '', signal: '' @ show_signal signal) w)
              \<lparr>activeStreams := (activeStreams w)(sid := None)\<rparr>)"
  using assms by (simp add: on_exit_def Let_def)

lemma on_exit_normal:
  assumes "sid \<notin> manuallyStoppingStreams w" "signal \<noteq> Some ''SIGSEGV''"
    "code = Some 0 \<or> code = None"
  shows "on_exit now sid code signal w =
           offlineAfterExit sid (activeStreams w sid \<noteq> None)
             ((addStreamLog now sid
                 (''Stream ended with code '' @ show_code code
                    @ '', signal: '' @ show_signal signal) w)
              \<lparr>activeStreams := (activeStreams w)(sid := None)\<rparr>)"
  using assms by (auto simp add: on_exit_def Let_def)

lemma on_exit_retry_timer:
  assumes "sid \<notin> manuallyStoppingStreams w"
    and "count_or_zero (streamRetryCount w sid) < MAX_RETRY_ATTEMPTS"
    and "signal = Some ''SIGSEGV'' \<or> (code \<noteq> Some 0 \<and> code \<noteq> None)"
  shows "timers (on_exit now sid code signal w) =
           timers w @
             [if signal = Some ''SIGSEGV''
              then (3000, CrashRestart sid (resume_at now sid w))
              else (backoffDelay (count_or_zero (streamRetryCount w sid)),
                    ErrorRestart sid (resume_at now sid w)
                      (count_or_zero (streamRetryCount w sid)))]"
    and "streamRetryCount (on_exit now sid code signal w) =
           (streamRetryCount w)(sid \<mapsto> count_or_zero (streamRetryCount w sid) + 1)"
    and "streams (on_exit now sid code signal w) = streams w"
    and "processes (on_exit now sid code signal w) = processes w"
    and "activeStreams (on_exit now sid code signal w) = (activeStreams w)(sid := None)"
proof -
  show "timers (on_exit now sid code signal w) =
           timers w @
             [if signal = Some ''SIGSEGV''
              then (3000, CrashRestart sid (resume_at now sid w))
              else (backoffDelay (count_or_zero (streamRetryCount w sid)),
                    ErrorRestart sid (resume_at now sid w)
                      (count_or_zero (streamRetryCount w sid)))]"
  proof (cases "signal = Some ''SIGSEGV''")
    case True
    with assms show ?thesis
      by (simp add: on_exit_crash handleStreamCrash_retry)
  next
    case False
    with assms show ?thesis
      by (simp add: on_exit_error handleStreamError_retry)
  qed
  show "streamRetryCount (on_exit now sid code signal w) =
           (streamRetryCount w)(sid \<mapsto> count_or_zero (streamRetryCount w sid) + 1)"
    using assms
    by (cases "signal = Some ''SIGSEGV''")
       (simp_all add: on_exit_crash on_exit_error handleStreamCrash_retry handleStreamError_retry)
  show "streams (on_exit now sid code signal w) = streams w"
    using assms
    by (cases "signal = Some ''SIGSEGV''")
       (simp_all add: on_exit_crash on_exit_error handleStreamCrash_retry handleStreamError_retry)
  show "processes (on_exit now sid code signal w) = processes w"
    using assms
    by (cases "signal = Some ''SIGSEGV''")
       (simp_all add: on_exit_crash on_exit_error handleStreamCrash_retry handleStreamError_retry)
  show "activeStreams (on_exit now sid code signal w) = (activeStreams w)(sid := None)"
    using assms
    by (cases "signal = Some ''SIGSEGV''")
       (simp_all add: on_exit_crash on_exit_error handleStreamCrash_retry handleStreamError_retry)
qed

text \<open>
  What does hold of the retry budget: an exit never takes a retry count above 3, and a
  failure that finds the count at 3 schedules nothing and marks the stream offline.
\<close>

lemma on_exit_retryCount_bounded:
  assumes "count_or_zero (streamRetryCount w s) \<le> MAX_RETRY_ATTEMPTS"
  shows "count_or_zero (streamRetryCount (on_exit now sid code signal w) s) \<le> MAX_RETRY_ATTEMPTS"
proof (cases "sid \<in> manuallyStoppingStreams w")
  case True
  then show ?thesis using assms by (simp add: on_exit_def Let_def)
next
  case False
  show ?thesis
  proof (cases "signal = Some ''SIGSEGV''")
    case True
    with False assms show ?thesis
      by (simp add: on_exit_crash handleStreamCrash_retryCount count_or_zero_def)
  next
    case sig: False
    show ?thesis
    proof (cases "code = Some 0 \<or> code = None")
      case True
      with False sig assms show ?thesis by (simp add: on_exit_normal)
    next
      case False
      with \<open>sid \<notin> manuallyStoppingStreams w\<close> sig assms show ?thesis
        by (simp add: on_exit_error handleStreamError_retryCount count_or_zero_def)
    qed
  qed
qed

lemma exhausted_failure_goes_offline:
  assumes "sid \<notin> manuallyStoppingStreams w"
    and "\<not> count_or_zero (streamRetryCount w sid) < MAX_RETRY_ATTEMPTS"
    and "signal = Some ''SIGSEGV'' \<or> (code \<noteq> Some 0 \<and> code \<noteq> None)"
  shows "timers (on_exit now sid code signal w) = timers w"
    and "streamRetryCount (on_exit now sid code signal w) = streamRetryCount w"
    and "streams (on_exit now sid code signal w) =
           (streams w)(sid := map_option (\<lambda>row. row\<lparr>status := ''offline''\<rparr>) (streams w sid))"
  using assms
  by (cases "signal = Some ''SIGSEGV''";
      simp add: on_exit_crash on_exit_error handleStreamCrash_exhausted
        handleStreamError_exhausted)+

subsection \<open>Events of other streams\<close>

text \<open>
  An event that belongs to another stream changes nothing that the failure handling of
  this stream's instance reads, and never lowers the next process id.
\<close>

lemma instance_view_wrappers [simp]:
  "instance_view sid p (addStreamLog now s m w) = instance_view sid p w"
  "instance_view sid p (updateStatus s st w) = instance_view sid p w"
  "instance_view sid p (handleStreamStopped s w) = instance_view sid p w"
  "instance_view sid p (setTimeout a d w) = instance_view sid p w"
  "instance_view sid p (kill q sig w) = instance_view sid p w"
  "instance_view sid p (w\<lparr>timers := ts\<rparr>) = instance_view sid p w"
  "instance_view sid p (w\<lparr>activeStreams := act\<rparr>) = instance_view sid p w"
  by (simp_all add: instance_view_def handleStreamStopped_def setTimeout_def kill_def)

lemma next_pid_wrappers [simp]:
  "next_pid (handleStreamStopped s w) = next_pid w"
  "next_pid (setTimeout a d w) = next_pid w"
  "next_pid (kill q sig w) = next_pid w"
  by (simp_all add: handleStreamStopped_def setTimeout_def kill_def)





lemma offlineAfterExit_other [simp]:
  "instance_view sid p (offlineAfterExit s b w) = instance_view sid p w"
  "next_pid (offlineAfterExit s b w) = next_pid w"
  by (simp_all add: offlineAfterExit_def)








subsection \<open>Which exits count as crashes\<close>

text \<open>
  A process killed by the fault signal SIGBUS (exit code null), with no manual stop: the
  exit handler treats the termination as a normal exit.  No restart is scheduled, no
  retry is counted and the stream is marked offline.
\<close>

theorem sigbus_exit_counterexample:
  "timers (run [(0, Start ''s1'' None), (5000, Exit 0 None (Some ''SIGBUS''))] demo) = []
   \<and> streamRetryCount (run [(0, Start ''s1'' None), (5000, Exit 0 None (Some ''SIGBUS''))] demo) ''s1''
       = None
   \<and> map_option status
        (streams (run [(0, Start ''s1'' None), (5000, Exit 0 None (Some ''SIGBUS''))] demo) ''s1'')
       = Some ''offline''"
  by (simp add: run_defs cong: addStreamLog_weak_cong)

lemma offlineAfterExit_effect [simp]:
  "timers (offlineAfterExit sid b w) = timers w"
  "streams (offlineAfterExit sid b w) =
     (if b then (streams w)(sid := map_option (\<lambda>row. row\<lparr>status := ''offline''\<rparr>) (streams w sid))
      else streams w)"
  by (simp_all add: offlineAfterExit_def handleStreamStopped_def)

text \<open>
  Claim C7 (as amended).  For every process termination that was not a manual stop:
  if the signal is SIGSEGV the exit handler takes the crash path, \<open>handleStreamCrash\<close>
  with reason SIGSEGV, which while the retry count is below 3 increments the count,
  schedules one restart after 3000 ms from the computed resume position and leaves the
  durable status alone; if the signal is anything else and the exit code is null or 0,
  the termination is handled as a normal exit: nothing is scheduled, the retry counts
  are untouched and the stream is marked offline if it was registered.
\<close>

theorem exit_crash_path_only_for_sigsegv:
  assumes "sid \<notin> manuallyStoppingStreams w"
  shows "(signal = Some ''SIGSEGV'' \<longrightarrow>
            on_exit now sid code signal w =
              handleStreamCrash now sid ''SIGSEGV''
                ((addStreamLog now sid
                    (''Stream ended with code '' @ show_code code
                       @ '', signal: '' @ show_signal signal) w)
                 \<lparr>activeStreams := (activeStreams w)(sid := None)\<rparr>)
          \<and> (count_or_zero (streamRetryCount w sid) < MAX_RETRY_ATTEMPTS \<longrightarrow>
               timers (on_exit now sid code signal w) =
                 timers w @ [(3000, CrashRestart sid (resume_at now sid w))]
             \<and> streamRetryCount (on_exit now sid code signal w) sid =
                 Some (count_or_zero (streamRetryCount w sid) + 1)
             \<and> streams (on_exit now sid code signal w) = streams w))
       \<and> (signal \<noteq> Some ''SIGSEGV'' \<and> (code = None \<or> code = Some 0) \<longrightarrow>
            timers (on_exit now sid code signal w) = timers w
          \<and> streamRetryCount (on_exit now sid code signal w) = streamRetryCount w
          \<and> streams (on_exit now sid code signal w) =
              (if activeStreams w sid = None then streams w
               else (streams w)
                      (sid := map_option (\<lambda>row. row\<lparr>status := ''offline''\<rparr>) (streams w sid))))"
proof (intro conjI impI)
  assume sig: "signal = Some ''SIGSEGV''"
  show "on_exit now sid code signal w =
          handleStreamCrash now sid ''SIGSEGV''
            ((addStreamLog now sid
                (''Stream ended with code '' @ show_code code
                   @ '', signal: '' @ show_signal signal) w)
             \<lparr>activeStreams := (activeStreams w)(sid := None)\<rparr>)"
    unfolding sig using assms by (rule on_exit_crash)
  assume rc: "count_or_zero (streamRetryCount w sid) < MAX_RETRY_ATTEMPTS"
  have fl: "signal = Some ''SIGSEGV'' \<or> (code \<noteq> Some 0 \<and> code \<noteq> None)"
    using sig by simp
  note E = on_exit_retry_timer [OF assms rc fl, of now]
  show "timers (on_exit now sid code signal w) =
          timers w @ [(3000, CrashRestart sid (resume_at now sid w))]"
    using E(1) sig by simp
  show "streamRetryCount (on_exit now sid code signal w) sid =
          Some (count_or_zero (streamRetryCount w sid) + 1)"
    using E(2) by simp
  show "streams (on_exit now sid code signal w) = streams w"
    by (rule E(3))
next
  assume other: "signal \<noteq> Some ''SIGSEGV'' \<and> (code = None \<or> code = Some 0)"
  then have n: "on_exit now sid code signal w =
          offlineAfterExit sid (activeStreams w sid \<noteq> None)
            ((addStreamLog now sid
                (''Stream ended with code '' @ show_code code
                   @ '', signal: '' @ show_signal signal) w)
             \<lparr>activeStreams := (activeStreams w)(sid := None)\<rparr>)"
    using assms by (intro on_exit_normal) auto
  show "timers (on_exit now sid code signal w) = timers w"
    unfolding n by simp
  show "streamRetryCount (on_exit now sid code signal w) = streamRetryCount w"
    unfolding n by simp
  show "streams (on_exit now sid code signal w) =
          (if activeStreams w sid = None then streams w
           else (streams w)
                  (sid := map_option (\<lambda>row. row\<lparr>status := ''offline''\<rparr>) (streams w sid)))"
    unfolding n by simp
qed

theorem exit_crash_path_only_for_sigsegv_witness:
  "''s1'' \<notin> manuallyStoppingStreams (run [(0, Start ''s1'' None)] demo)
   \<and> count_or_zero (streamRetryCount (run [(0, Start ''s1'' None)] demo) ''s1'') < MAX_RETRY_ATTEMPTS
   \<and> timers (on_exit 5000 ''s1'' None (Some ''SIGSEGV'') (run [(0, Start ''s1'' None)] demo))
       = [(3000, CrashRestart ''s1'' 5)]
   \<and> streamRetryCount (on_exit 5000 ''s1'' None (Some ''SIGSEGV'')
                          (run [(0, Start ''s1'' None)] demo)) ''s1'' = Some 1
   \<and> timers (on_exit 5000 ''s1'' None (Some ''SIGABRT'') (run [(0, Start ''s1'' None)] demo)) = []
   \<and> streamRetryCount (on_exit 5000 ''s1'' None (Some ''SIGABRT'')
                          (run [(0, Start ''s1'' None)] demo)) ''s1'' = None
   \<and> streams (on_exit 5000 ''s1'' None (Some ''SIGABRT'') (run [(0, Start ''s1'' None)] demo)) ''s1''
       = Some demo_row"
proof -
  let ?w = "run [(0, Start ''s1'' None)] demo"
  have m: "''s1'' \<notin> manuallyStoppingStreams ?w"
    by (simp add: run_defs cong: addStreamLog_weak_cong)
  have c: "count_or_zero (streamRetryCount ?w ''s1'') = 0"
    by (simp add: run_defs cong: addStreamLog_weak_cong)
  have rcN: "streamRetryCount ?w ''s1'' = None"
    by (simp add: run_defs cong: addStreamLog_weak_cong)
  have t: "timers ?w = []"
    by (simp add: run_defs cong: addStreamLog_weak_cong)
  have r: "resume_at 5000 ''s1'' ?w = 5"
    by (simp add: resume_at_def run_defs cong: addStreamLog_weak_cong)
  have act: "activeStreams ?w ''s1'' \<noteq> None"
    by (simp add: run_defs cong: addStreamLog_weak_cong)
  have row: "streams ?w ''s1'' = Some (demo_row\<lparr>status := ''live''\<rparr>)"
    by (simp add: run_defs cong: addStreamLog_weak_cong)
  have off: "demo_row\<lparr>status := ''offline''\<rparr> = demo_row"
    by (simp add: demo_row_def)
  have lt: "count_or_zero (streamRetryCount ?w ''s1'') < MAX_RETRY_ATTEMPTS"
    unfolding c by (simp add: MAX_RETRY_ATTEMPTS_def)
  from exit_crash_path_only_for_sigsegv [OF m, of "Some ''SIGSEGV''" 5000 None] lt
  have "timers (on_exit 5000 ''s1'' None (Some ''SIGSEGV'') ?w)
          = timers ?w @ [(3000, CrashRestart ''s1'' (resume_at 5000 ''s1'' ?w))]
      \<and> streamRetryCount (on_exit 5000 ''s1'' None (Some ''SIGSEGV'') ?w) ''s1''
          = Some (count_or_zero (streamRetryCount ?w ''s1'') + 1)"
    by blast
  then have segv: "timers (on_exit 5000 ''s1'' None (Some ''SIGSEGV'') ?w) = [(3000, CrashRestart ''s1'' 5)]
      \<and> streamRetryCount (on_exit 5000 ''s1'' None (Some ''SIGSEGV'') ?w) ''s1'' = Some 1"
    unfolding t r c by simp
  have ne: "Some ''SIGABRT'' \<noteq> Some ''SIGSEGV'' \<and> ((None :: int option) = None \<or> (None :: int option) = Some 0)"
    by simp
  from exit_crash_path_only_for_sigsegv [OF m, of "Some ''SIGABRT''" 5000 None] ne
  have "timers (on_exit 5000 ''s1'' None (Some ''SIGABRT'') ?w) = timers ?w
      \<and> streamRetryCount (on_exit 5000 ''s1'' None (Some ''SIGABRT'') ?w) = streamRetryCount ?w
      \<and> streams (on_exit 5000 ''s1'' None (Some ''SIGABRT'') ?w) =
          (if activeStreams ?w ''s1'' = None then streams ?w
           else (streams ?w)
                  (''s1'' := map_option (\<lambda>row. row\<lparr>status := ''offline''\<rparr>) (streams ?w ''s1'')))"
    by blast
  then have abrt: "timers (on_exit 5000 ''s1'' None (Some ''SIGABRT'') ?w) = []
      \<and> streamRetryCount (on_exit 5000 ''s1'' None (Some ''SIGABRT'') ?w) ''s1'' = None
      \<and> streams (on_exit 5000 ''s1'' None (Some ''SIGABRT'') ?w) ''s1'' = Some demo_row"
    using act unfolding t by (simp only: rcN row if_False fun_upd_same option.map) (simp add: demo_row_def)
  from m lt segv abrt show ?thesis by blast
qed

subsection \<open>The delay of the first retry\<close>

text \<open>
  On any state: when a stream with no tracked position is started afresh and its process
  then exits with a non-zero code, one restart is scheduled after 1500 ms, from the
  elapsed whole seconds.
\<close>

lemma first_error_exit_after_fresh_start:
  assumes start: "fst (startStream t sid None w) = Inr info"
    and manual: "sid \<notin> manuallyStoppingStreams w"
    and untracked: "streamVideoPositions w sid = None"
    and failure: "code \<noteq> Some 0" "code \<noteq> None" "signal \<noteq> Some ''SIGSEGV''"
  shows "timers (run [(t, Start sid None), (t', Exit (next_pid w) code signal)] w)
           = timers w @ [(1500, ErrorRestart sid (max 0 ((t' - t) div 1000)) 0)]"
proof -
  from start obtain row v where ok: "streams w sid = Some row" "videos w (video_id row) = Some v"
      "relativeVideoPath (filepath v) \<in> public_files w"
    by (rule startStream_success)
  let ?w1 = "snd (startStream t sid None w)"
  let ?w1' = "?w1\<lparr>processes := (processes ?w1)(next_pid w := None)\<rparr>"
  note L = startStream_launch [OF ok]
  have proc: "processes ?w1 (next_pid w) = Some sid" by (simp add: L)
  have man: "sid \<notin> manuallyStoppingStreams ?w1'" using manual by (simp add: L)
  have count: "count_or_zero (streamRetryCount ?w1' sid) = 0"
    by (simp add: L truthy_def count_or_zero_def)
  have rc: "count_or_zero (streamRetryCount ?w1' sid) < MAX_RETRY_ATTEMPTS"
    unfolding count by (simp add: MAX_RETRY_ATTEMPTS_def)
  have tm: "timers ?w1' = timers w" by (simp add: L)
  have base: "streamBasePositions ?w1 sid = Some 0"
    using untracked by (simp add: L launch_positions truthy_def)
  have st: "streamStartTimes ?w1 sid = Some t" by (simp add: L)
  have res: "resume_at t' sid ?w1' = max 0 ((t' - t) div 1000)"
    by (simp add: resume_at_def base st num_or_zero_def)
  have fl: "signal = Some ''SIGSEGV'' \<or> (code \<noteq> Some 0 \<and> code \<noteq> None)"
    using failure by simp
  have run: "run [(t, Start sid None), (t', Exit (next_pid w) code signal)] w
               = on_exit t' sid code signal ?w1'"
    by (simp add: proc)
  show ?thesis
    unfolding run on_exit_retry_timer(1) [OF man rc fl] res tm count
    using failure by (simp add: backoffDelay_values)
qed

text \<open>
  Claim C3.  A fresh start followed by a first exit with code 1 after 12 seconds: exactly
  one restart is scheduled, with resume position 12, but after 1500 ms and not 3000 ms.
  The delay is computed from the retry count read before it is incremented, so the three
  delays of the error path are 1500, 3000 and 6000 ms (\<open>backoffDelay_values\<close>); the
  crash path waits a fixed 3000 ms (\<open>handleStreamCrash_retry\<close>).
\<close>

theorem first_error_retry_after_1500ms:
  "timers (run [(0, Start ''s1'' None), (12000, Exit 0 (Some 1) None)] demo)
     = [(1500, ErrorRestart ''s1'' 12 0)]"
proof -
  have start: "fst (startStream 0 ''s1'' None demo) = Inr \<lparr>isAdvancedMode = False, resumed = False\<rparr>"
    by (simp add: run_defs cong: addStreamLog_weak_cong)
  have w: "''s1'' \<notin> manuallyStoppingStreams demo" "streamVideoPositions demo ''s1'' = None"
    "next_pid demo = 0" "timers demo = []"
    by (simp_all add: demo_def)
  have "timers (run [(0, Start ''s1'' None), (12000, Exit (next_pid demo) (Some 1) None)] demo)
          = timers demo @ [(1500, ErrorRestart ''s1'' (max 0 ((12000 - 0) div 1000)) 0)]"
    by (rule first_error_exit_after_fresh_start [OF start w(1) w(2)]) simp_all
  then show ?thesis unfolding w by simp
qed

subsection \<open>Resume positions across restarts\<close>




subsection \<open>The retry budget\<close>

lemma quick_failure_schedules_retry:
  assumes "quick_instance n w"
  shows "timers (step (2000 * int n + 500) (Exit n (Some 1) None) w)
           = [(1500, ErrorRestart ''s1'' 0 0)]"
    and "streamRetryCount (step (2000 * int n + 500) (Exit n (Some 1) None) w) ''s1'' = Some 1"
    and "streams (step (2000 * int n + 500) (Exit n (Some 1) None) w) ''s1''
           = Some (demo_row\<lparr>status := ''live''\<rparr>)"
proof -
  let ?w' = "w\<lparr>processes := (processes w)(n := None)\<rparr>"
  let ?t = "2000 * int n + 500"
  from assms have ih:
    "streams w ''s1'' = Some (demo_row\<lparr>status := ''live''\<rparr>)"
    "''s1'' \<notin> manuallyStoppingStreams w" "processes w n = Some ''s1''"
    "streamStartTimes w ''s1'' = Some (2000 * int n)"
    "streamBasePositions w ''s1'' = Some 0" "streamRetryCount w ''s1'' = None"
    "timers w = []"
    by (simp_all add: quick_instance_def)
  have man: "''s1'' \<notin> manuallyStoppingStreams ?w'" using ih by simp
  have rc: "count_or_zero (streamRetryCount ?w' ''s1'') < MAX_RETRY_ATTEMPTS"
    using ih by (simp add: count_or_zero_def MAX_RETRY_ATTEMPTS_def)
  have failure: "(None :: string option) = Some ''SIGSEGV''
                 \<or> ((Some 1 :: int option) \<noteq> Some 0 \<and> (Some 1 :: int option) \<noteq> None)"
    by simp
  note E = on_exit_retry_timer [OF man rc failure, of ?t]
  have st: "step ?t (Exit n (Some 1) None) w = on_exit ?t ''s1'' (Some 1) None ?w'"
    using ih by simp
  have res: "resume_at ?t ''s1'' ?w' = 0"
    using ih by (simp add: resume_at_def num_or_zero_def)
  show "timers (step ?t (Exit n (Some 1) None) w) = [(1500, ErrorRestart ''s1'' 0 0)]"
    unfolding st E(1) res using ih by (simp add: count_or_zero_def backoffDelay_values)
  show "streamRetryCount (step ?t (Exit n (Some 1) None) w) ''s1'' = Some 1"
    unfolding st E(2) using ih by (simp add: count_or_zero_def)
  show "streams (step ?t (Exit n (Some 1) None) w) ''s1'' = Some (demo_row\<lparr>status := ''live''\<rparr>)"
    unfolding st E(3) using ih by simp
qed

lemma quick_cycle:
  assumes "quick_instance n w"
  shows "quick_instance (Suc n)
           (run [(2000 * int n + 500, Exit n (Some 1) None), (2000 * int n + 2000, Fire 0)] w)"
proof -
  let ?w' = "w\<lparr>processes := (processes w)(n := None)\<rparr>"
  let ?t = "2000 * int n + 500"
  let ?u = "2000 * int n + 2000"
  define X where "X = step ?t (Exit n (Some 1) None) w"
  define X' where "X' = X\<lparr>timers := []\<rparr>"
  define Y where "Y = addStreamLog ?u ''s1''
              (''Attempting restart #'' @ show_int (int (0 + 1)) @ ''...'') X'"
  from assms have ih:
    "streams w ''s1'' = Some (demo_row\<lparr>status := ''live''\<rparr>)"
    "videos w = videos demo" "public_files w = public_files demo"
    "''s1'' \<notin> manuallyStoppingStreams w" "processes w n = Some ''s1''"
    "streamStartTimes w ''s1'' = Some (2000 * int n)"
    "streamBasePositions w ''s1'' = Some 0" "streamVideoPositions w ''s1'' \<noteq> None"
    "streamRetryCount w ''s1'' = None"
    "timers w = []" "next_pid w = Suc n"
    by (simp_all add: quick_instance_def)
  have man: "''s1'' \<notin> manuallyStoppingStreams ?w'" using ih by simp
  have err: "X = handleStreamError ?t ''s1'' (Some 1) None
               ((addStreamLog ?t ''s1''
                   (''Stream ended with code '' @ show_code (Some 1)
                      @ '', signal: '' @ show_signal None) ?w')
                \<lparr>activeStreams := (activeStreams ?w')(''s1'' := None)\<rparr>)"
    unfolding X_def using man ih by (simp add: on_exit_error cong: addStreamLog_weak_cong)
  have X_timers: "timers X = [(1500, ErrorRestart ''s1'' 0 0)]"
    unfolding X_def by (rule quick_failure_schedules_retry [OF assms])
  have X_streams: "streams X ''s1'' = Some (demo_row\<lparr>status := ''live''\<rparr>)"
    unfolding X_def by (rule quick_failure_schedules_retry [OF assms])
  have X_frame: "videos X = videos demo" "public_files X = public_files demo"
    "''s1'' \<notin> manuallyStoppingStreams X" "next_pid X = Suc n"
    "streamBasePositions X ''s1'' = Some 0"
    using ih by (simp_all add: err)
  have X_vp: "streamVideoPositions X ''s1'' \<noteq> None"
    using ih
    by (simp add: err handleStreamError_def calculateResumePosition_def setTimeout_def
        count_or_zero_def MAX_RETRY_ATTEMPTS_def Let_def)
  have Y_ok: "streams Y ''s1'' = Some (demo_row\<lparr>status := ''live''\<rparr>)"
    "videos Y (video_id (demo_row\<lparr>status := ''live''\<rparr>)) = Some \<lparr>filepath = ''/uploads/a.mp4''\<rparr>"
    "relativeVideoPath (filepath \<lparr>filepath = ''/uploads/a.mp4''\<rparr>) \<in> public_files Y"
    using X_streams X_frame
    by (simp_all add: Y_def X'_def demo_def demo_row_def relativeVideoPath_def)
  note L = startStream_launch [OF Y_ok, of ?u "Some 0"]
  have fire: "errorRestart ?u ''s1'' 0 0 X' =
                addStreamLog ?u ''s1''
                  (''Restart successful, resumed from position: '' @ show_int 0 @ ''s'')
                  (snd (startStream ?u ''s1'' (Some 0) Y))"
    using X_streams unfolding Y_def
    by (simp add: errorRestart_def L [unfolded Y_def X'_def] X'_def cong: addStreamLog_weak_cong)
  have unfold: "run [(?t, Exit n (Some 1) None), (?u, Fire 0)] w = errorRestart ?u ''s1'' 0 0 X'"
  proof -
    have "run [(?t, Exit n (Some 1) None), (?u, Fire 0)] w = step ?u (Fire 0) X"
      by (simp only: run.simps X_def)
    also have "\<dots> = errorRestart ?u ''s1'' 0 0 X'"
      by (simp add: X_timers X'_def)
    finally show ?thesis .
  qed
  have Y_frame: "videos Y = videos demo" "public_files Y = public_files demo"
    "''s1'' \<notin> manuallyStoppingStreams Y" "next_pid Y = Suc n"
    "streamBasePositions Y ''s1'' = Some 0" "streamVideoPositions Y ''s1'' \<noteq> None"
    "timers Y = []"
    using X_frame X_vp by (simp_all add: Y_def X'_def)
  show ?thesis
    unfolding unfold fire quick_instance_def
    using Y_frame Y_ok(1)
    by (simp add: L launch_positions truthy_def num_or_zero_def)
qed

lemma quick_failures_reach_instance:
  "quick_instance n (run ((0, Start ''s1'' None) # quick_failure_cycles n) demo)"
proof (induction n)
  case 0
  show ?case
    by (simp add: quick_instance_def run_defs cong: addStreamLog_weak_cong)
next
  case (Suc n)
  have "run ((0, Start ''s1'' None) # quick_failure_cycles (Suc n)) demo =
          run [(2000 * int n + 500, Exit n (Some 1) None), (2000 * int n + 2000, Fire 0)]
            (run ((0, Start ''s1'' None) # quick_failure_cycles n) demo)"
    using run_append [of "(0, Start ''s1'' None) # quick_failure_cycles n"] by simp
  then show ?case using quick_cycle [OF Suc.IH] by simp
qed

text \<open>
  However many times in a row the process fails within its first second, the next such
  failure schedules one more restart: the restart is requested at position 0, which
  \<open>startStream\<close> takes for a fresh start, deleting the retry count.
\<close>

lemma quick_failures_retried_forever:
  "timers (run ((0, Start ''s1'' None) # quick_failure_cycles n
                  @ [(2000 * int n + 500, Exit n (Some 1) None)]) demo)
     = [(1500, ErrorRestart ''s1'' 0 0)]
   \<and> streamRetryCount (run ((0, Start ''s1'' None) # quick_failure_cycles n
                  @ [(2000 * int n + 500, Exit n (Some 1) None)]) demo) ''s1'' = Some 1
   \<and> streams (run ((0, Start ''s1'' None) # quick_failure_cycles n
                  @ [(2000 * int n + 500, Exit n (Some 1) None)]) demo) ''s1''
       = Some (demo_row\<lparr>status := ''live''\<rparr>)"
proof -
  have "run ((0, Start ''s1'' None) # quick_failure_cycles n
               @ [(2000 * int n + 500, Exit n (Some 1) None)]) demo
        = step (2000 * int n + 500) (Exit n (Some 1) None)
            (run ((0, Start ''s1'' None) # quick_failure_cycles n) demo)"
    using run_append [of "(0, Start ''s1'' None) # quick_failure_cycles n"] by simp
  then show ?thesis
    using quick_failure_schedules_retry [OF quick_failures_reach_instance [of n]] by simp
qed

text \<open>
  Claim C5.  The claim is that consecutive failures of one session are retried at most 3
  times.  A fresh start followed by four consecutive exits with code 1, each within the
  first second of its instance and with nothing but the scheduled restarts in between:
  the fourth failure schedules a fourth restart, the retry count stands at 1 and the
  stream is still marked live.
\<close>

theorem fourth_quick_failure_still_retried:
  "timers (run [(0, Start ''s1'' None),
                (500, Exit 0 (Some 1) None), (2000, Fire 0),
                (2500, Exit 1 (Some 1) None), (4000, Fire 0),
                (4500, Exit 2 (Some 1) None), (6000, Fire 0),
                (6500, Exit 3 (Some 1) None)] demo)
     = [(1500, ErrorRestart ''s1'' 0 0)]
   \<and> streamRetryCount (run [(0, Start ''s1'' None),
                (500, Exit 0 (Some 1) None), (2000, Fire 0),
                (2500, Exit 1 (Some 1) None), (4000, Fire 0),
                (4500, Exit 2 (Some 1) None), (6000, Fire 0),
                (6500, Exit 3 (Some 1) None)] demo) ''s1'' = Some 1
   \<and> map_option status
        (streams (run [(0, Start ''s1'' None),
                (500, Exit 0 (Some 1) None), (2000, Fire 0),
                (2500, Exit 1 (Some 1) None), (4000, Fire 0),
                (4500, Exit 2 (Some 1) None), (6000, Fire 0),
                (6500, Exit 3 (Some 1) None)] demo) ''s1'') = Some ''live''"
proof -
  have events: "(0, Start ''s1'' None) # quick_failure_cycles 3
                  @ [(2000 * int 3 + 500, Exit 3 (Some 1) None)]
                = [(0, Start ''s1'' None),
                   (500, Exit 0 (Some 1) None), (2000, Fire 0),
                   (2500, Exit 1 (Some 1) None), (4000, Fire 0),
                   (4500, Exit 2 (Some 1) None), (6000, Fire 0),
                   (6500, Exit 3 (Some 1) None)]"
    by (simp add: eval_nat_numeral)
  show ?thesis
    using quick_failures_retried_forever [of 3] unfolding events by simp
qed

subsection \<open>A stop while a restart is pending\<close>

text \<open>
  A stop of a running process is final: \<open>stopStream\<close> flags the stream, and the exit
  handler of a flagged stream clears the flag and returns without scheduling anything.
\<close>

lemma stop_of_running_process_is_final:
  "fst (stopStream 5000 ''s1'' (run [(0, Start ''s1'' None)] demo)) = Inr ''Stream stopped successfully''
   \<and> signals (run [(0, Start ''s1'' None), (5000, Stop ''s1'')] demo) = [(0, ''SIGTERM'')]
   \<and> timers (run [(0, Start ''s1'' None), (5000, Stop ''s1''),
                   (5100, Exit 0 None (Some ''SIGTERM''))] demo) = []
   \<and> activeStreams (run [(0, Start ''s1'' None), (5000, Stop ''s1''),
                          (5100, Exit 0 None (Some ''SIGTERM''))] demo) ''s1'' = None
   \<and> processes (run [(0, Start ''s1'' None), (5000, Stop ''s1''),
                      (5100, Exit 0 None (Some ''SIGTERM''))] demo) = Map.empty
   \<and> map_option status
        (streams (run [(0, Start ''s1'' None), (5000, Stop ''s1''),
                       (5100, Exit 0 None (Some ''SIGTERM''))] demo) ''s1'') = Some ''offline''"
  by (simp add: run_defs cong: addStreamLog_weak_cong)

lemma manual_stop_exit_never_restarts:
  assumes "sid \<in> manuallyStoppingStreams w"
  shows "timers (on_exit now sid code signal w) = timers w"
    and "sid \<notin> manuallyStoppingStreams (on_exit now sid code signal w)"
  using assms
  by (simp_all add: on_exit_def Let_def offlineAfterExit_def handleStreamStopped_def
      cong: addStreamLog_weak_cong)

text \<open>
  The callback of a scheduled restart looks at nothing but the existence of the stream's
  record: without the record it spawns nothing; with the record (and the media) it
  starts the stream whatever the record's status.
\<close>

lemma restart_callback_checks_record_only:
  assumes "a = CrashRestart sid r \<or> a = ErrorRestart sid r n"
  shows "(streams w sid = None \<longrightarrow>
            processes (run_timer now a w) = processes w
          \<and> activeStreams (run_timer now a w) = activeStreams w
          \<and> streams (run_timer now a w) = streams w
          \<and> next_pid (run_timer now a w) = next_pid w)
       \<and> (\<forall>row v. streams w sid = Some row \<and> videos w (video_id row) = Some v
              \<and> relativeVideoPath (filepath v) \<in> public_files w \<longrightarrow>
            activeStreams (run_timer now a w) sid = Some (next_pid w)
          \<and> processes (run_timer now a w) (next_pid w) = Some sid
          \<and> streams (run_timer now a w) sid = Some (row\<lparr>status := ''live''\<rparr>))"
proof (intro conjI impI allI)
  assume gone: "streams w sid = None"
  show "processes (run_timer now a w) = processes w"
    using assms gone by (auto simp add: crashRestart_def errorRestart_def)
  show "activeStreams (run_timer now a w) = activeStreams w"
    using assms gone by (auto simp add: crashRestart_def errorRestart_def)
  show "streams (run_timer now a w) = streams w"
    using assms gone by (auto simp add: crashRestart_def errorRestart_def)
  show "next_pid (run_timer now a w) = next_pid w"
    using assms gone by (auto simp add: crashRestart_def errorRestart_def)
next
  fix row v
  assume ok: "streams w sid = Some row \<and> videos w (video_id row) = Some v
              \<and> relativeVideoPath (filepath v) \<in> public_files w"
  let ?w = "addStreamLog now sid (''Attempting restart #'' @ show_int (int (n + 1)) @ ''...'') w"
  have ok': "streams ?w sid = Some row" "videos ?w (video_id row) = Some v"
    "relativeVideoPath (filepath v) \<in> public_files ?w"
    using ok by simp_all
  have c: "crashRestart now sid r w = snd (startStream now sid (Some r) w)"
    using ok by (simp add: crashRestart_def startStream_launch)
  have e: "errorRestart now sid r n w =
             addStreamLog now sid
               (''Restart successful, resumed from position: '' @ show_int r @ ''s'')
               (snd (startStream now sid (Some r) ?w))"
    using ok by (simp add: errorRestart_def startStream_launch [OF ok'] cong: addStreamLog_weak_cong)
  show "activeStreams (run_timer now a w) sid = Some (next_pid w)"
    using assms ok by (auto simp add: c e startStream_launch startStream_launch [OF ok'])
  show "processes (run_timer now a w) (next_pid w) = Some sid"
    using assms ok by (auto simp add: c e startStream_launch startStream_launch [OF ok'])
  show "streams (run_timer now a w) sid = Some (row\<lparr>status := ''live''\<rparr>)"
    using assms ok by (auto simp add: c e startStream_launch startStream_launch [OF ok'])
qed

text \<open>
  Claim C4.  The claim is that once \<open>stopStream\<close> was called no automatic restart
  fires, also when a restart timer was pending.  The process exits with code 1 and a
  restart is scheduled; \<open>stopStream\<close> is called during the wait and returns success (it
  finds no process and repairs the status), and the timer stays pending; the timer then
  fires and the stream is started again: it is registered, its new process is alive and
  its status is live.
\<close>

theorem restart_fires_after_stop:
  "timers (run [(0, Start ''s1'' None), (12000, Exit 0 (Some 1) None)] demo)
     = [(1500, ErrorRestart ''s1'' 12 0)]
   \<and> fst (stopStream 12500 ''s1'' (run [(0, Start ''s1'' None), (12000, Exit 0 (Some 1) None)] demo))
       = Inr ''Stream status fixed (was not active but marked as live)''
   \<and> timers (run [(0, Start ''s1'' None), (12000, Exit 0 (Some 1) None),
                   (12500, Stop ''s1'')] demo)
       = [(1500, ErrorRestart ''s1'' 12 0)]
   \<and> activeStreams (run [(0, Start ''s1'' None), (12000, Exit 0 (Some 1) None),
                          (12500, Stop ''s1''), (14000, Fire 0)] demo) ''s1'' = Some 1
   \<and> processes (run [(0, Start ''s1'' None), (12000, Exit 0 (Some 1) None),
                      (12500, Stop ''s1''), (14000, Fire 0)] demo) 1 = Some ''s1''
   \<and> map_option status
        (streams (run [(0, Start ''s1'' None), (12000, Exit 0 (Some 1) None),
                       (12500, Stop ''s1''), (14000, Fire 0)] demo) ''s1'') = Some ''live''"
  by (simp add: run_defs cong: addStreamLog_weak_cong)

subsection \<open>A stop without a tracked process\<close>

text \<open>
  Claim C8.  \<open>stopStream\<close> on a stream with no tracked process returns the error
  "Stream is not active" and changes nothing when the durable status is offline; when
  the durable status is live it rewrites the status to offline and returns success,
  sending no signal and leaving the process table, the registry, the manual-stop flags
  and the pending timers as they were.
\<close>

theorem stopStream_without_process:
  assumes "activeStreams w sid = None" and "streams w sid = Some row"
  shows "(status row = ''offline'' \<longrightarrow> stopStream now sid w = (Inl StreamNotActive, w))
       \<and> (status row = ''live'' \<longrightarrow>
            fst (stopStream now sid w) =
              Inr ''Stream status fixed (was not active but marked as live)''
          \<and> streams (snd (stopStream now sid w)) = (streams w)(sid \<mapsto> row\<lparr>status := ''offline''\<rparr>)
          \<and> signals (snd (stopStream now sid w)) = signals w
          \<and> processes (snd (stopStream now sid w)) = processes w
          \<and> activeStreams (snd (stopStream now sid w)) = activeStreams w
          \<and> manuallyStoppingStreams (snd (stopStream now sid w)) = manuallyStoppingStreams w
          \<and> timers (snd (stopStream now sid w)) = timers w)"
  using assms by (simp add: stopStream_def handleStreamStopped_def)

lemma stopStream_no_record:
  "activeStreams w sid = None \<Longrightarrow> streams w sid = None \<Longrightarrow>
   stopStream now sid w = (Inl StreamNotActive, w)"
  by (simp add: stopStream_def)

theorem stopStream_without_process_witness:
  "stopStream 0 ''s1'' demo = (Inl StreamNotActive, demo)
   \<and> fst (stopStream 0 ''s1'' (demo\<lparr>streams := [''s1'' \<mapsto> demo_row\<lparr>status := ''live''\<rparr>]\<rparr>))
       = Inr ''Stream status fixed (was not active but marked as live)''
   \<and> streams (snd (stopStream 0 ''s1''
                      (demo\<lparr>streams := [''s1'' \<mapsto> demo_row\<lparr>status := ''live''\<rparr>]\<rparr>))) ''s1''
       = Some (demo_row\<lparr>status := ''offline''\<rparr>)
   \<and> signals (snd (stopStream 0 ''s1''
                      (demo\<lparr>streams := [''s1'' \<mapsto> demo_row\<lparr>status := ''live''\<rparr>]\<rparr>))) = []"
proof -
  let ?live = "demo\<lparr>streams := [''s1'' \<mapsto> demo_row\<lparr>status := ''live''\<rparr>]\<rparr>"
  have a1: "activeStreams demo ''s1'' = None" and r1: "streams demo ''s1'' = Some demo_row"
    and s1: "status demo_row = ''offline''"
    by (simp_all add: demo_def demo_row_def)
  have a2: "activeStreams ?live ''s1'' = None"
    and r2: "streams ?live ''s1'' = Some (demo_row\<lparr>status := ''live''\<rparr>)"
    and s2: "status (demo_row\<lparr>status := ''live''\<rparr>) = ''live''"
    and g2: "signals ?live = []"
    by (simp_all add: demo_def)
  from stopStream_without_process [OF a1 r1, of 0] s1
  have off: "stopStream 0 ''s1'' demo = (Inl StreamNotActive, demo)" by blast
  from stopStream_without_process [OF a2 r2, of 0] s2 g2
  have "fst (stopStream 0 ''s1'' ?live)
          = Inr ''Stream status fixed (was not active but marked as live)''
      \<and> streams (snd (stopStream 0 ''s1'' ?live)) ''s1'' = Some (demo_row\<lparr>status := ''offline''\<rparr>)
      \<and> signals (snd (stopStream 0 ''s1'' ?live)) = []"
    by simp
  with off show ?thesis by blast
qed

end
